theory Spec2Isabelle
  imports Complex_Main "HOL-Library.Sublist"
begin

section \<open>Data model\<close>

text \<open>
  The program is \<^verbatim>\<open>scripts/lightGBM_model.py\<close>: a command line tool that trains two
  LightGBM regressors on CSV data and predicts from a JSON record. pandas, LightGBM,
  pickle, json and the operating system are libraries of the program; what the program
  relies on is written out below, each library operation beside the line that calls it.

  A pandas DataFrame is modelled row-major: the ordered column labels and the rows, each
  row holding one cell per column. Cells are the values that \<^verbatim>\<open>pd.read_csv\<close> and
  \<^verbatim>\<open>pd.DataFrame([record])\<close> produce: a number (floats are idealised as rationals),
  a boolean, a text, the missing value NaN, Python's None (a JSON null), or another
  Python object (a nested JSON list or object).
\<close>

type_synonym name = string

datatype cell = Num rat | Flag bool | Str string | NaN | Null | Obj

record frame =
  columns :: "name list"
  rows :: "cell list list"

text \<open>
  The Python exceptions that the program and its libraries raise. Each is a subclass of
  \<^verbatim>\<open>Exception\<close>, so \<^verbatim>\<open>except Exception\<close> catches every value of this type.
  \<^verbatim>\<open>sys.exit\<close> is not among them: it ends the process, see \<open>status\<close> below.
\<close>

datatype exn =
    KeyError "name list"
  | ValueError string
  | TypeError
  | AttributeError
  | FileNotFoundError string
  | FileExistsError string
  | IsADirectoryError string
  | UnpicklingError
  | JSONDecodeError
  | ParserError
  | LibraryError string

text \<open>
  What is printed. The texts of the program are partly Russian; a diagnostic is kept as
  a value naming the call that printed it, with the values it interpolates. One element
  of a stream is the output of one \<^verbatim>\<open>print\<close> or \<^verbatim>\<open>sys.stderr.write\<close> call.
\<close>

datatype action = Train | Predict

datatype json =
    JNull | JBool bool | JNum rat | JStr string
  | JArr "json list" | JObj "(string \<times> json) list"

datatype diag =
    MissingColumns "name list"
  | NotEnoughData
  | ErrorLoadingModels exn
  | Launch action string string
  | NeedValData
  | LaunchTraining string string
  | LoadingTrain string
  | LoadingVal string
  | BadData
  | TrainingOn nat nat
  | ValidatingOn nat
  | FittingPrice
  | FittingSales
  | TrainingDone
  | PriceMetrics int rat
  | SalesMetrics int rat
  | LaunchPrediction
  | PredictionResult rat rat
  | BadJsonInput
  | PredictionError exn


text \<open>
  What a run does to the two streams, in order: \<open>Log d\<close> is a call of the local
  function \<^verbatim>\<open>log_info\<close> (lines 107 to 109 and 316 to 318), which writes the text to
  standard error and the same text behind \<^verbatim>\<open>INFO: \<close> to standard output;
  \<open>PrintText d\<close> is \<^verbatim>\<open>print\<close> of a text, \<open>PrintJson j\<close> is
  \<^verbatim>\<open>print(json.dumps(j))\<close>.
\<close>

datatype event = Log diag | PrintText diag | PrintJson json


fun stderr_of :: "event list \<Rightarrow> diag list" where
  "stderr_of [] = []"
| "stderr_of (Log d # es) = d # stderr_of es"
| "stderr_of (e # es) = stderr_of es"

text \<open>Sequencing of calls that may raise: the first exception ends the sequence.\<close>

fun and_then :: "exn + 'a \<Rightarrow> ('a \<Rightarrow> exn + 'b) \<Rightarrow> exn + 'b" where
  "and_then (Inl e) f = Inl e"
| "and_then (Inr x) f = f x"

section \<open>DataFrame operations the program uses\<close>

fun col_index :: "name \<Rightarrow> name list \<Rightarrow> nat option" where
  "col_index c [] = None"
| "col_index c (x # xs) =
     (if c = x then Some 0 else map_option Suc (col_index c xs))"

text \<open>\<^verbatim>\<open>df[col]\<close>: the cells of one column, or KeyError.\<close>

definition get_column :: "frame \<Rightarrow> name \<Rightarrow> exn + cell list" where
  "get_column df c =
     (case col_index c (columns df) of
        None \<Rightarrow> Inl (KeyError [c])
      | Some i \<Rightarrow> Inr (map (\<lambda>r. r ! i) (rows df)))"

text \<open>\<^verbatim>\<open>df[mask]\<close>: the rows whose mask entry is True, in their order.\<close>

definition select_rows :: "frame \<Rightarrow> bool list \<Rightarrow> frame" where
  "select_rows df keep =
     df\<lparr>rows := map fst (filter snd (zip (rows df) keep))\<rparr>"

text \<open>
  \<^verbatim>\<open>df[names]\<close>: the listed columns in the listed order, or KeyError naming the labels
  that are not columns.
\<close>

definition select_columns :: "frame \<Rightarrow> name list \<Rightarrow> exn + frame" where
  "select_columns df names =
     (case those (map (\<lambda>c. col_index c (columns df)) names) of
        None \<Rightarrow> Inl (KeyError (filter (\<lambda>c. c \<notin> set (columns df)) names))
      | Some idxs \<Rightarrow>
          Inr \<lparr>columns = names, rows = map (\<lambda>r. map (\<lambda>i. r ! i) idxs) (rows df)\<rparr>)"

text \<open>
  \<^verbatim>\<open>df[col] = values\<close> for a column that exists: its cells are replaced, row by row.
  pandas raises ValueError when there are not as many values as rows.
\<close>

definition set_column :: "frame \<Rightarrow> name \<Rightarrow> cell list \<Rightarrow> exn + frame" where
  "set_column df c cs =
     (case col_index c (columns df) of
        None \<Rightarrow> Inl (KeyError [c])
      | Some i \<Rightarrow>
          if length cs \<noteq> length (rows df)
          then Inl (ValueError ''Length of values does not match length of index'')
          else Inr (df\<lparr>rows := map (\<lambda>(r, v). r[i := v]) (zip (rows df) cs)\<rparr>))"

text \<open>
  \<^verbatim>\<open>Series.astype(int)\<close>: a boolean becomes 0 or 1, a number is truncated towards zero,
  a text goes through Python's \<^verbatim>\<open>int()\<close> (the parameter \<open>py_int\<close>: what \<^verbatim>\<open>int()\<close>
  makes of a text, \<open>None\<close> where it raises); a missing value or any other object
  raises.
\<close>

fun int_cell :: "(string \<Rightarrow> int option) \<Rightarrow> cell \<Rightarrow> exn + cell" where
  "int_cell py_int (Num x) = Inr (Num (of_int (if 0 \<le> x then \<lfloor>x\<rfloor> else \<lceil>x\<rceil>)))"
| "int_cell py_int (Flag b) = Inr (Num (if b then 1 else 0))"
| "int_cell py_int (Str t) =
     (case py_int t of
        None \<Rightarrow> Inl (ValueError ''invalid literal for int() with base 10'')
      | Some i \<Rightarrow> Inr (Num (of_int i)))"
| "int_cell py_int NaN = Inl (ValueError ''Cannot convert non-finite values (NA or inf) to integer'')"
| "int_cell py_int Null = Inl TypeError"
| "int_cell py_int Obj = Inl TypeError"

fun astype_int :: "(string \<Rightarrow> int option) \<Rightarrow> cell list \<Rightarrow> exn + cell list" where
  "astype_int py_int [] = Inr []"
| "astype_int py_int (c # cs) =
     and_then (int_cell py_int c) (\<lambda>v.
     and_then (astype_int py_int cs) (\<lambda>vs. Inr (v # vs)))"

text \<open>
  \<^verbatim>\<open>Series.astype('category')\<close> changes how pandas stores the column, not the values
  in it: the cells stay as they are.
\<close>

definition astype_category :: "cell list \<Rightarrow> cell list" where
  "astype_category cs = cs"

text \<open>
  \<^verbatim>\<open>df.dropna(subset=labels)\<close>: the rows in which no listed column is missing (NaN or
  None); KeyError when a listed label is not a column.
\<close>

fun is_na :: "cell \<Rightarrow> bool" where
  "is_na NaN = True"
| "is_na Null = True"
| "is_na _ = False"

definition dropna :: "frame \<Rightarrow> name list \<Rightarrow> exn + frame" where
  "dropna df labels =
     (case those (map (\<lambda>c. col_index c (columns df)) labels) of
        None \<Rightarrow> Inl (KeyError (filter (\<lambda>c. c \<notin> set (columns df)) labels))
      | Some idxs \<Rightarrow>
          Inr (df\<lparr>rows := filter (\<lambda>r. list_all (\<lambda>i. \<not> is_na (r ! i)) idxs) (rows df)\<rparr>))"

text \<open>
  \<^verbatim>\<open>Series.quantile(q)\<close> with pandas' default linear interpolation: missing values are
  skipped; of the \<open>n\<close> remaining values in ascending order the result lies at position
  \<open>q * (n - 1)\<close>, interpolated between its two neighbours; with no value left the
  result is NaN. A level outside the interval from 0 to 1 raises ValueError, and a
  column holding anything but numbers and NaN raises TypeError.
\<close>

fun numeric_values :: "cell list \<Rightarrow> rat list option" where
  "numeric_values [] = Some []"
| "numeric_values (Num x # cs) = map_option (\<lambda>xs. x # xs) (numeric_values cs)"
| "numeric_values (NaN # cs) = numeric_values cs"
| "numeric_values (c # cs) = None"

definition interpolate :: "rat list \<Rightarrow> rat \<Rightarrow> rat" where
  "interpolate s q =
     (let pos = q * of_nat (length s - 1);
          lo = nat \<lfloor>pos\<rfloor>;
          frac = pos - of_nat lo
      in if Suc lo < length s then s ! lo + frac * (s ! Suc lo - s ! lo)
         else s ! (length s - 1))"

definition quantile :: "cell list \<Rightarrow> rat \<Rightarrow> exn + cell" where
  "quantile cs q =
     (if q < 0 \<or> 1 < q then Inl (ValueError ''percentiles should all be in the interval [0, 1]'')
      else case numeric_values cs of
        None \<Rightarrow> Inl TypeError
      | Some xs \<Rightarrow>
          if xs = [] then Inr NaN
          else Inr (Num (interpolate (sort xs) q)))"

text \<open>
  Elementwise \<^verbatim>\<open>>=\<close> and \<^verbatim>\<open><=\<close> of a numeric column with a bound: a comparison with
  NaN on either side is False.
\<close>

fun cell_ge :: "cell \<Rightarrow> cell \<Rightarrow> bool" where
  "cell_ge (Num x) (Num b) = (x \<ge> b)"
| "cell_ge _ _ = False"

fun cell_le :: "cell \<Rightarrow> cell \<Rightarrow> bool" where
  "cell_le (Num x) (Num b) = (x \<le> b)"
| "cell_le _ _ = False"

section \<open>SchemaValidator: \<^verbatim>\<open>validate_data\<close>\<close>

definition required_columns :: "name list" where
  "required_columns =
     [''price_target'', ''sales_target'', ''brand'', ''region'', ''category'',
      ''seller'', ''price'', ''original_price'']"

text \<open>The result and what the call prints.\<close>

definition validate_data :: "frame \<Rightarrow> bool \<times> event list" where
  "validate_data df =
     (let missing_columns = filter (\<lambda>col. col \<notin> set (columns df)) required_columns
      in if missing_columns \<noteq> [] then (False, [PrintText (MissingColumns missing_columns)])
         else if length (rows df) < 10 then (False, [PrintText NotEnoughData])
         else (True, []))"

section \<open>OutlierFilter: \<^verbatim>\<open>remove_outliers\<close>\<close>

text \<open>One pass of the loop body, lines 100 to 102.\<close>

definition filter_column :: "frame \<Rightarrow> name \<Rightarrow> rat \<Rightarrow> rat \<Rightarrow> exn + frame" where
  "filter_column df col lower_quantile upper_quantile =
     and_then (get_column df col) (\<lambda>cs.
     and_then (quantile cs lower_quantile) (\<lambda>lower_bound.
     and_then (quantile cs upper_quantile) (\<lambda>upper_bound.
       Inr (select_rows df
             (map (\<lambda>c. cell_ge c lower_bound \<and> cell_le c upper_bound) cs)))))"

fun remove_outliers :: "frame \<Rightarrow> name list \<Rightarrow> rat \<Rightarrow> rat \<Rightarrow> exn + frame" where
  "remove_outliers df [] lq uq = Inr df"
| "remove_outliers df (col # cols) lq uq =
     and_then (filter_column df col lq uq) (\<lambda>df'. remove_outliers df' cols lq uq)"

section \<open>FeatureBuilder: \<^verbatim>\<open>_prepare_features\<close>\<close>

definition categorical_feature_list :: "name list" where
  "categorical_feature_list =
     [''brand'', ''region'', ''category'', ''seller'', ''day_of_week'', ''month'', ''quarter'']"

definition numerical_feature_list :: "name list" where
  "numerical_feature_list =
     [''price'', ''original_price'', ''discount_percentage'', ''stock_level'',
      ''customer_rating'', ''review_count'', ''delivery_days'', ''is_weekend'', ''is_holiday'',
      ''sales_quantity_lag_1'', ''price_lag_1'', ''sales_quantity_lag_3'', ''price_lag_3'',
      ''sales_quantity_lag_7'', ''price_lag_7'', ''sales_quantity_rolling_mean_3'',
      ''price_rolling_mean_3'', ''sales_quantity_rolling_mean_7'', ''price_rolling_mean_7'']"

text \<open>Lines 55 and 56: \<^verbatim>\<open>df[c] = df[c].astype(int)\<close>.\<close>

definition coerce_int :: "(string \<Rightarrow> int option) \<Rightarrow> frame \<Rightarrow> name \<Rightarrow> exn + frame" where
  "coerce_int py_int df c =
     and_then (get_column df c) (\<lambda>cs.
     and_then (astype_int py_int cs) (\<lambda>vs. set_column df c vs))"

text \<open>Lines 59 to 61, also lines 295 to 297 of \<^verbatim>\<open>predict\<close>.\<close>

definition categorize :: "name \<Rightarrow> frame \<Rightarrow> frame" where
  "categorize cat_feat df =
     (if cat_feat \<in> set (columns df)
      then (case and_then (get_column df cat_feat)
                   (\<lambda>cs. set_column df cat_feat (astype_category cs)) of
              Inl e \<Rightarrow> df
            | Inr df' \<Rightarrow> df')
      else df)"

text \<open>
  The call returns the feature matrix, the feature names and the categorical names. It
  also updates \<open>df\<close> in place, in the two flag columns and the categorical columns
  only; the callers read nothing but the two target columns of \<open>df\<close> afterwards.
\<close>

definition prepare_features ::
  "(string \<Rightarrow> int option) \<Rightarrow> frame \<Rightarrow> exn + (frame \<times> name list \<times> name list)" where
  "prepare_features py_int df =
     (let categorical = categorical_feature_list;
          numerical = numerical_feature_list;
          names = numerical @ categorical
      in and_then (coerce_int py_int df ''is_weekend'') (\<lambda>df1.
         and_then (coerce_int py_int df1 ''is_holiday'') (\<lambda>df2.
         and_then (select_columns (fold categorize categorical df2) names) (\<lambda>X.
           Inr (X, names, categorical)))))"

section \<open>The predictor object, the libraries and the file system\<close>

text \<open>
  The fields of \<^verbatim>\<open>LightGBMPredictor\<close>. A model is whatever \<^verbatim>\<open>lgb.train\<close> returned or
  \<^verbatim>\<open>pickle.load\<close> read (the type \<open>'m\<close>), \<open>None\<close> before. The two schema fields hold
  what \<^verbatim>\<open>_prepare_features\<close> returned or what \<^verbatim>\<open>json.load\<close> read; Python's \<^verbatim>\<open>None\<close>
  is \<open>JNull\<close>.
\<close>

record 'm predictor =
  model_dir :: string
  price_model :: "'m option"
  sales_model :: "'m option"
  feature_names :: json
  categorical_features :: json

text \<open>
  The libraries are parameters of the model:
  \<^item> \<open>py_int\<close>: Python's \<^verbatim>\<open>int()\<close> on a text;
  \<^item> \<open>json_loads\<close>: \<^verbatim>\<open>json.loads\<close>, \<open>None\<close> where it raises JSONDecodeError;
  \<^item> \<open>lgb_train\<close>: the two \<^verbatim>\<open>lgb.Dataset\<close> calls and the \<^verbatim>\<open>lgb.train\<close> call for one
    target, from the training matrix and labels, the validation matrix and labels and
    the categorical names, with the parameters of lines 168 to 181;
  \<^item> \<open>booster_predict\<close>: \<^verbatim>\<open>float(model.predict(X)[0])\<close>;
  \<^item> \<open>best_iteration\<close>, \<open>best_score\<close>: the attributes read at lines 207 to 212;
  \<^item> \<open>odd_schema\<close>: what pandas and the two models make of lines 295 to 304 when a
    schema field read from \<^verbatim>\<open>feature_info.json\<close> is not a list of texts.
\<close>

record 'm lib =
  py_int :: "string \<Rightarrow> int option"
  json_loads :: "string \<Rightarrow> json option"
  lgb_train :: "frame \<Rightarrow> cell list \<Rightarrow> frame \<Rightarrow> cell list \<Rightarrow> name list \<Rightarrow> exn + 'm"
  booster_predict :: "'m \<Rightarrow> frame \<Rightarrow> exn + rat"
  best_iteration :: "'m \<Rightarrow> int"
  best_score :: "'m \<Rightarrow> rat"
  odd_schema :: "json \<Rightarrow> json \<Rightarrow> frame \<Rightarrow> 'm \<Rightarrow> 'm \<Rightarrow> exn + (rat \<times> rat)"

text \<open>
  The file system is a map from path names to what is there: a directory, or a regular
  file. A regular file is known by the reader that accepts it: \<^verbatim>\<open>pd.read_csv\<close> reads a
  \<open>Csv\<close> file as a frame, \<^verbatim>\<open>pickle.load\<close> reads a \<open>Pickled\<close> file as an object,
  \<^verbatim>\<open>json.load\<close> reads a \<open>Json\<close> file as a value; each reader raises on the others and
  on \<open>Garbage\<close>. \<^verbatim>\<open>pickle.dump\<close> and \<^verbatim>\<open>json.dump\<close> write a file that the matching
  reader reads back as the value written. Access rights are not modelled.
\<close>

datatype 'm content = Csv frame | Pickled 'm | Json json | Garbage

datatype 'm node = Dir | File "'m content"

type_synonym 'm filesys = "string \<Rightarrow> 'm node option"

text \<open>\<^verbatim>\<open>os.path.join(a, b)\<close> for a relative name \<open>b\<close>.\<close>

definition path_join :: "string \<Rightarrow> string \<Rightarrow> string" where
  "path_join a b =
     (if a = [] then b
      else if last a = CHR ''/'' then a @ b
      else a @ ''/'' @ b)"

text \<open>
  \<^verbatim>\<open>os.makedirs(d, exist_ok=True)\<close>: nothing to do when \<open>d\<close> is a directory, an error
  when \<open>d\<close> is a regular file or the empty path, else \<open>d\<close> is created.
\<close>

definition makedirs :: "'m filesys \<Rightarrow> string \<Rightarrow> exn + 'm filesys" where
  "makedirs fs d =
     (if d = [] then Inl (FileNotFoundError d)
      else case fs d of
        None \<Rightarrow> Inr (fs(d \<mapsto> Dir))
      | Some Dir \<Rightarrow> Inr fs
      | Some (File c) \<Rightarrow> Inl (FileExistsError d))"

text \<open>\<^verbatim>\<open>open(p, 'rb')\<close> or \<^verbatim>\<open>open(p, 'r')\<close>, up to what the reader then sees.\<close>

definition read_file :: "'m filesys \<Rightarrow> string \<Rightarrow> exn + 'm content" where
  "read_file fs p =
     (case fs p of
        None \<Rightarrow> Inl (FileNotFoundError p)
      | Some Dir \<Rightarrow> Inl (IsADirectoryError p)
      | Some (File c) \<Rightarrow> Inr c)"

text \<open>
  \<^verbatim>\<open>open(os.path.join(d, f), 'wb')\<close> followed by the dump of \<open>c\<close>: the directory \<open>d\<close>
  has to exist (the empty \<open>d\<close> is the working directory), and the path must not be a
  directory itself.
\<close>

definition write_file :: "'m filesys \<Rightarrow> string \<Rightarrow> string \<Rightarrow> 'm content \<Rightarrow> exn + 'm filesys" where
  "write_file fs d f c =
     (let p = path_join d f
      in if d \<noteq> [] \<and> fs d \<noteq> Some Dir then Inl (FileNotFoundError p)
         else if fs p = Some Dir then Inl (IsADirectoryError p)
         else Inr (fs(p \<mapsto> File c)))"

fun pickle_load :: "'m content \<Rightarrow> exn + 'm" where
  "pickle_load (Pickled m) = Inr m"
| "pickle_load c = Inl UnpicklingError"

fun json_load :: "'m content \<Rightarrow> exn + json" where
  "json_load (Json j) = Inr j"
| "json_load c = Inl JSONDecodeError"

fun read_csv_content :: "'m content \<Rightarrow> exn + frame" where
  "read_csv_content (Csv df) = Inr df"
| "read_csv_content c = Inl ParserError"

definition read_csv :: "'m filesys \<Rightarrow> string \<Rightarrow> exn + frame" where
  "read_csv fs p = and_then (read_file fs p) read_csv_content"

text \<open>\<^verbatim>\<open>value[key]\<close> on what \<^verbatim>\<open>json.load\<close> returned.\<close>

fun json_get :: "json \<Rightarrow> string \<Rightarrow> exn + json" where
  "json_get (JObj kvs) k =
     (case map_of kvs k of None \<Rightarrow> Inl (KeyError [k]) | Some v \<Rightarrow> Inr v)"
| "json_get j k = Inl TypeError"

text \<open>A Python list of texts as a value, and back.\<close>

definition json_names :: "name list \<Rightarrow> json" where
  "json_names names = JArr (map JStr names)"

fun text_of :: "json \<Rightarrow> string option" where
  "text_of (JStr t) = Some t"
| "text_of j = None"

fun names_of :: "json \<Rightarrow> name list option" where
  "names_of (JArr js) = those (map text_of js)"
| "names_of j = None"

section \<open>\<^verbatim>\<open>__init__\<close>\<close>

definition new_predictor :: "string \<Rightarrow> 'm filesys \<Rightarrow> exn + ('m predictor \<times> 'm filesys)" where
  "new_predictor d fs =
     and_then (makedirs fs d) (\<lambda>fs'.
       Inr (\<lparr>model_dir = d, price_model = None, sales_model = None,
             feature_names = JNull, categorical_features = JNull\<rparr>, fs'))"

section \<open>ModelStore: \<^verbatim>\<open>save_models\<close> and \<^verbatim>\<open>load_models\<close>\<close>

text \<open>
  \<^verbatim>\<open>save_models\<close> returns the exception it raised, if any, and the file system it
  leaves: the files written before an exception stay.
\<close>

definition save_models :: "'m predictor \<Rightarrow> 'm filesys \<Rightarrow> exn option \<times> 'm filesys" where
  "save_models self fs =
     (case (case price_model self of
              None \<Rightarrow> Inr fs
            | Some m \<Rightarrow> write_file fs (model_dir self) ''price_model.pkl'' (Pickled m)) of
        Inl e \<Rightarrow> (Some e, fs)
      | Inr fs1 \<Rightarrow>
     (case (case sales_model self of
              None \<Rightarrow> Inr fs1
            | Some m \<Rightarrow> write_file fs1 (model_dir self) ''sales_model.pkl'' (Pickled m)) of
        Inl e \<Rightarrow> (Some e, fs1)
      | Inr fs2 \<Rightarrow>
     (if feature_names self \<noteq> JNull \<and> categorical_features self \<noteq> JNull
      then (case write_file fs2 (model_dir self) ''feature_info.json''
                   (Json (JObj [(''feature_names'', feature_names self),
                                (''categorical_features'', categorical_features self)])) of
              Inl e \<Rightarrow> (Some e, fs2)
            | Inr fs3 \<Rightarrow> (None, fs3))
      else (None, fs2))))"

text \<open>
  The \<^verbatim>\<open>try\<close> block of \<^verbatim>\<open>load_models\<close>, lines 252 to 266: the exception it raised, if
  any, and the object as the assignments before it left it.
\<close>

definition load_models_try :: "'m predictor \<Rightarrow> 'm filesys \<Rightarrow> exn option \<times> 'm predictor" where
  "load_models_try self fs =
     (case and_then (read_file fs (path_join (model_dir self) ''price_model.pkl'')) pickle_load of
        Inl e \<Rightarrow> (Some e, self)
      | Inr pm \<Rightarrow>
     (let self1 = self\<lparr>price_model := Some pm\<rparr> in
      case and_then (read_file fs (path_join (model_dir self) ''sales_model.pkl'')) pickle_load of
        Inl e \<Rightarrow> (Some e, self1)
      | Inr sm \<Rightarrow>
     (let self2 = self1\<lparr>sales_model := Some sm\<rparr> in
      case and_then (read_file fs (path_join (model_dir self) ''feature_info.json'')) json_load of
        Inl e \<Rightarrow> (Some e, self2)
      | Inr feature_info \<Rightarrow>
     (case json_get feature_info ''feature_names'' of
        Inl e \<Rightarrow> (Some e, self2)
      | Inr names \<Rightarrow>
     (let self3 = self2\<lparr>feature_names := names\<rparr> in
      case json_get feature_info ''categorical_features'' of
        Inl e \<Rightarrow> (Some e, self3)
      | Inr cats \<Rightarrow> (None, self3\<lparr>categorical_features := cats\<rparr>))))))"

text \<open>
  \<^verbatim>\<open>load_models\<close>: \<^verbatim>\<open>except Exception\<close> (line 267) catches whatever the block raised,
  prints it and returns False.
\<close>

definition load_models :: "'m predictor \<Rightarrow> 'm filesys \<Rightarrow> bool \<times> 'm predictor \<times> event list" where
  "load_models self fs =
     (case load_models_try self fs of
        (None, self') \<Rightarrow> (True, self', [])
      | (Some e, self') \<Rightarrow> (False, self', [PrintText (ErrorLoadingModels e)]))"

section \<open>Predictor: \<^verbatim>\<open>predict\<close>\<close>

text \<open>
  \<^verbatim>\<open>pd.DataFrame([product_data])\<close>: a JSON object gives one row with the keys as column
  labels. Any other JSON value gives one row whose column labels are integers; the
  program looks columns up by text labels only, so the frame has no column for it.
\<close>

fun cell_of_json :: "json \<Rightarrow> cell" where
  "cell_of_json JNull = Null"
| "cell_of_json (JBool b) = Flag b"
| "cell_of_json (JNum x) = Num x"
| "cell_of_json (JStr t) = Str t"
| "cell_of_json (JArr js) = Obj"
| "cell_of_json (JObj kvs) = Obj"

fun frame_of_record :: "json \<Rightarrow> frame" where
  "frame_of_record (JObj kvs) =
     \<lparr>columns = map fst kvs, rows = [map (\<lambda>kv. cell_of_json (snd kv)) kvs]\<rparr>"
| "frame_of_record j = \<lparr>columns = [], rows = [[]]\<rparr>"

text \<open>Lines 286 to 309, with both models resident.\<close>

definition predict_resident ::
  "'m lib \<Rightarrow> 'm predictor \<Rightarrow> json \<Rightarrow> exn + (rat \<times> rat)" where
  "predict_resident L self product_data =
     (let df = frame_of_record product_data in
      and_then (if ''is_weekend'' \<in> set (columns df)
                then coerce_int (py_int L) df ''is_weekend'' else Inr df) (\<lambda>df1.
      and_then (if ''is_holiday'' \<in> set (columns df1)
                then coerce_int (py_int L) df1 ''is_holiday'' else Inr df1) (\<lambda>df2.
      case (price_model self, sales_model self) of
        (Some pm, Some sm) \<Rightarrow>
          (case (names_of (categorical_features self), names_of (feature_names self)) of
             (Some cats, Some names) \<Rightarrow>
               and_then (select_columns (fold categorize cats df2) names) (\<lambda>X.
               and_then (booster_predict L pm X) (\<lambda>price_pred.
               and_then (booster_predict L sm X) (\<lambda>sales_pred.
                 Inr (price_pred, sales_pred))))
           | _ \<Rightarrow> odd_schema L (categorical_features self) (feature_names self) df2 pm sm)
      | _ \<Rightarrow> Inl AttributeError)))"

text \<open>
  \<^verbatim>\<open>predict\<close>: what it returns or raises, the object afterwards, and what was printed.
\<close>

definition predict ::
  "'m lib \<Rightarrow> 'm predictor \<Rightarrow> 'm filesys \<Rightarrow> json
     \<Rightarrow> (exn + (rat \<times> rat)) \<times> 'm predictor \<times> event list" where
  "predict L self fs product_data =
     (if price_model self = None \<or> sales_model self = None
      then (case load_models self fs of
              (False, self', evs) \<Rightarrow>
                (Inl (ValueError ''Models not trained or loaded properly''), self', evs)
            | (True, self', evs) \<Rightarrow>
                (predict_resident L self' product_data, self', evs))
      else (predict_resident L self product_data, self, []))"

section \<open>DualModelTrainer: \<^verbatim>\<open>train\<close>\<close>

text \<open>
  Lines 122 to 127: outliers are removed from the training frame, then the rows with a
  missing target are dropped from both frames.
\<close>

definition clean_frames :: "frame \<Rightarrow> frame \<Rightarrow> exn + (frame \<times> frame)" where
  "clean_frames train_df val_df =
     and_then (remove_outliers train_df [''price_target'', ''sales_target''] (1 / 100) (99 / 100))
       (\<lambda>train_df1.
     and_then (dropna train_df1 [''price_target'', ''sales_target'']) (\<lambda>train_df2.
     and_then (dropna val_df [''price_target'', ''sales_target'']) (\<lambda>val_df2.
       Inr (train_df2, val_df2))))"

text \<open>
  A step of \<^verbatim>\<open>train\<close> gives a value or an exception, and the events up to there.
\<close>

type_synonym 'a logged = "(exn + 'a) \<times> event list"

fun then_log :: "'a logged \<Rightarrow> ('a \<Rightarrow> 'b logged) \<Rightarrow> 'b logged" where
  "then_log (Inl e, evs) f = (Inl e, evs)"
| "then_log (Inr x, evs) f = (case f x of (r, evs') \<Rightarrow> (r, evs @ evs'))"

definition log_info :: "diag \<Rightarrow> unit logged" where
  "log_info d = (Inr (), [Log d])"

definition quiet :: "exn + 'a \<Rightarrow> 'a logged" where
  "quiet r = (r, [])"

text \<open>
  Line 117: \<^verbatim>\<open>not validate_data(train_df) or not validate_data(val_df)\<close>; the second
  frame is checked only when the first is valid.
\<close>

definition validate_both :: "frame \<Rightarrow> frame \<Rightarrow> bool \<times> event list" where
  "validate_both train_df val_df =
     (case validate_data train_df of
        (False, evs) \<Rightarrow> (False, evs)
      | (True, evs) \<Rightarrow>
          (case validate_data val_df of (ok, evs') \<Rightarrow> (ok, evs @ evs')))"

text \<open>
  Lines 111 to 138: the training matrix and its two label vectors, the validation
  matrix and its two label vectors, the feature names and the categorical names. The
  message of line 118 is Russian; it stands here in English.
\<close>

definition training_data ::
  "'m lib \<Rightarrow> 'm filesys \<Rightarrow> string \<Rightarrow> string
     \<Rightarrow> ((frame \<times> cell list \<times> cell list) \<times> (frame \<times> cell list \<times> cell list)
          \<times> name list \<times> name list) logged" where
  "training_data L fs train_data_path val_data_path =
     then_log (log_info (LoadingTrain train_data_path)) (\<lambda>_.
     then_log (quiet (read_csv fs train_data_path)) (\<lambda>train_df.
     then_log (log_info (LoadingVal val_data_path)) (\<lambda>_.
     then_log (quiet (read_csv fs val_data_path)) (\<lambda>val_df.
     then_log (case validate_both train_df val_df of
                 (False, evs) \<Rightarrow>
                   (Inl (ValueError ''Invalid training or validation data''),
                    evs @ [Log BadData])
               | (True, evs) \<Rightarrow> (Inr (), evs)) (\<lambda>_.
     then_log (quiet (clean_frames train_df val_df)) (\<lambda>(train_df', val_df').
     then_log (quiet (prepare_features (py_int L) train_df')) (\<lambda>(X_train, names, cats).
     then_log (quiet (get_column train_df' ''price_target'')) (\<lambda>y_price_train.
     then_log (quiet (get_column train_df' ''sales_target'')) (\<lambda>y_sales_train.
     then_log (quiet (prepare_features (py_int L) val_df')) (\<lambda>(X_val, _, _).
     then_log (quiet (get_column val_df' ''price_target'')) (\<lambda>y_price_val.
     then_log (quiet (get_column val_df' ''sales_target'')) (\<lambda>y_sales_val.
     then_log (log_info (TrainingOn (length (rows X_train)) (length names))) (\<lambda>_.
     then_log (log_info (ValidatingOn (length (rows X_val)))) (\<lambda>_.
       quiet (Inr ((X_train, y_price_train, y_sales_train),
                   (X_val, y_price_val, y_sales_val), names, cats))))))))))))))))"

text \<open>Lines 140 to 201: the two fits, price first.\<close>

definition fit_models ::
  "'m lib \<Rightarrow> (frame \<times> cell list \<times> cell list) \<Rightarrow> (frame \<times> cell list \<times> cell list)
     \<Rightarrow> name list \<Rightarrow> ('m \<times> 'm) logged" where
  "fit_models L tr va cats =
     (case (tr, va) of ((X_train, y_price_train, y_sales_train), (X_val, y_price_val, y_sales_val)) \<Rightarrow>
     then_log (log_info FittingPrice) (\<lambda>_.
     then_log (quiet (lgb_train L X_train y_price_train X_val y_price_val cats)) (\<lambda>pm.
     then_log (log_info FittingSales) (\<lambda>_.
     then_log (quiet (lgb_train L X_train y_sales_train X_val y_sales_val cats)) (\<lambda>sm.
       quiet (Inr (pm, sm)))))))"

definition metrics_of :: "'m lib \<Rightarrow> 'm \<Rightarrow> 'm \<Rightarrow> json" where
  "metrics_of L pm sm =
     JObj [(''price_model'',
              JObj [(''best_iteration'', JNum (of_int (best_iteration L pm))),
                    (''best_score'', JNum (best_score L pm))]),
           (''sales_model'',
              JObj [(''best_iteration'', JNum (of_int (best_iteration L sm))),
                    (''best_score'', JNum (best_score L sm))])]"

text \<open>
  \<^verbatim>\<open>train\<close>: the metrics and the object on return, or the exception raised; the file
  system and the events in both cases. Nothing catches an exception of \<^verbatim>\<open>train\<close>, so
  the object is of no use after one.
\<close>

definition train ::
  "'m lib \<Rightarrow> 'm predictor \<Rightarrow> 'm filesys \<Rightarrow> string \<Rightarrow> string
     \<Rightarrow> (exn + (json \<times> 'm predictor)) \<times> 'm filesys \<times> event list" where
  "train L self fs train_data_path val_data_path =
     (case training_data L fs train_data_path val_data_path of
        (Inl e, evs) \<Rightarrow> (Inl e, fs, evs)
      | (Inr (tr, va, names, cats), evs) \<Rightarrow>
     (let self1 = self\<lparr>feature_names := json_names names,
                        categorical_features := json_names cats\<rparr> in
      case fit_models L tr va cats of
        (Inl e, evs1) \<Rightarrow> (Inl e, fs, evs @ evs1)
      | (Inr (pm, sm), evs1) \<Rightarrow>
     (let self2 = self1\<lparr>price_model := Some pm, sales_model := Some sm\<rparr> in
      case save_models self2 fs of
        (Some e, fs') \<Rightarrow> (Inl e, fs', evs @ evs1)
      | (None, fs') \<Rightarrow>
          (Inr (metrics_of L pm sm, self2), fs',
           evs @ evs1 @
           [Log TrainingDone,
            Log (PriceMetrics (best_iteration L pm) (best_score L pm)),
            Log (SalesMetrics (best_iteration L sm) (best_score L sm)),
            PrintJson (metrics_of L pm sm)]))))"

section \<open>The command line: \<^verbatim>\<open>main\<close>\<close>

text \<open>
  The arguments as \<^verbatim>\<open>argparse\<close> returns them (line 326); a command line that
  \<^verbatim>\<open>argparse\<close> rejects ends the process before anything below happens.
\<close>

record args =
  arg_action :: action
  arg_train_data :: string
  arg_val_data :: "string option"
  arg_model_dir :: string








section \<open>Notions used to state the properties\<close>

text \<open>
  A column that \<^verbatim>\<open>remove_outliers\<close> can filter: it is in the frame and holds numbers
  and missing values only.
\<close>

definition numeric_column :: "frame \<Rightarrow> name \<Rightarrow> bool" where
  "numeric_column df c =
     (case get_column df c of Inl e \<Rightarrow> False | Inr cs \<Rightarrow> numeric_values cs \<noteq> None)"

text \<open>
  The filter that \<^verbatim>\<open>remove_outliers\<close> is compared with, after the words of the
  specification ("computing both columns' bounds on the original frame"): the bounds of
  every listed column are taken on the frame as it was given, and a row is kept when it
  lies within the bounds of every listed column. It is not in the program.
\<close>

fun independent_masks :: "frame \<Rightarrow> name list \<Rightarrow> rat \<Rightarrow> rat \<Rightarrow> exn + bool list" where
  "independent_masks df [] lq uq = Inr (replicate (length (rows df)) True)"
| "independent_masks df (col # cols) lq uq =
     and_then (get_column df col) (\<lambda>cs.
     and_then (quantile cs lq) (\<lambda>lower_bound.
     and_then (quantile cs uq) (\<lambda>upper_bound.
     and_then (independent_masks df cols lq uq) (\<lambda>keep.
       Inr (map (\<lambda>(c, k). cell_ge c lower_bound \<and> cell_le c upper_bound \<and> k)
                (zip cs keep))))))"

definition remove_outliers_independent ::
  "frame \<Rightarrow> name list \<Rightarrow> rat \<Rightarrow> rat \<Rightarrow> exn + frame" where
  "remove_outliers_independent df cols lq uq =
     and_then (independent_masks df cols lq uq) (\<lambda>keep. Inr (select_rows df keep))"

text \<open>A small frame with the two target columns, used to evaluate the filters.\<close>

definition example_targets :: frame where
  "example_targets =
     \<lparr>columns = [''price_target'', ''sales_target''],
      rows = [[Num 1, Num 10], [Num 2, Num 5], [Num 3, Num 6], [Num 4, Num 7]]\<rparr>"

text \<open>A row in which one of the two targets is missing (NaN or None).\<close>

definition target_missing :: "frame \<Rightarrow> cell list \<Rightarrow> bool" where
  "target_missing df r =
     list_ex (\<lambda>c. case col_index c (columns df) of None \<Rightarrow> False | Some i \<Rightarrow> is_na (r ! i))
       [''price_target'', ''sales_target'']"

text \<open>A frame with the two target columns and a missing price target in its fourth row.\<close>

definition example_gap :: frame where
  "example_gap =
     \<lparr>columns = [''price_target'', ''sales_target''],
      rows = [[Num 1, Num 10], [Num 2, Num 5], [Num 2, Num 5], [NaN, Num 6],
              [Num 2, Num 5], [Num 2, Num 5], [Num 4, Num 7]]\<rparr>"

text \<open>
  What \<^verbatim>\<open>load_models\<close> needs of the three artifacts: a file that \<^verbatim>\<open>pickle.load\<close> reads,
  and a file that \<^verbatim>\<open>json.load\<close> reads as an object with the keys
  \<^verbatim>\<open>feature_names\<close> and \<^verbatim>\<open>categorical_features\<close>.
\<close>

definition pickled_at :: "'m filesys \<Rightarrow> string \<Rightarrow> bool" where
  "pickled_at fs p = (case fs p of Some (File (Pickled m)) \<Rightarrow> True | _ \<Rightarrow> False)"

definition schema_at :: "'m filesys \<Rightarrow> string \<Rightarrow> bool" where
  "schema_at fs p =
     (case fs p of
        Some (File (Json (JObj kvs))) \<Rightarrow>
          map_of kvs ''feature_names'' \<noteq> None \<and> map_of kvs ''categorical_features'' \<noteq> None
      | _ \<Rightarrow> False)"

text \<open>
  A stand-in for the libraries, to run the model on concrete inputs. Its \<open>json_loads\<close>
  agrees with \<^verbatim>\<open>json.loads\<close> on the texts it is used on: \<^verbatim>\<open>{}\<close> is the empty object and
  a text without brackets, quotes or digits is not JSON. A model is a number here, the
  value it predicts.
\<close>

definition stub_lib :: "rat lib" where
  "stub_lib =
     \<lparr>py_int = (\<lambda>t. None),
      json_loads = (\<lambda>t. if t = ''{}'' then Some (JObj []) else None),
      lgb_train = (\<lambda>X y Xv yv cats. Inr 0),
      booster_predict = (\<lambda>m X. Inr m),
      best_iteration = (\<lambda>m. 1),
      best_score = (\<lambda>m. 0),
      odd_schema = (\<lambda>cats names df pm sm. Inl TypeError)\<rparr>"

text \<open>A trained bundle, a disk with an empty model directory, and the disk after saving.\<close>

definition example_bundle :: "rat predictor" where
  "example_bundle =
     \<lparr>model_dir = ''models'', price_model = Some 10, sales_model = Some 3,
      feature_names = json_names [''price''], categorical_features = json_names []\<rparr>"

definition example_disk :: "rat filesys" where
  "example_disk = [''models'' \<mapsto> Dir]"

definition example_saved :: "rat filesys" where
  "example_saved =
     example_disk
       (''models/price_model.pkl'' \<mapsto> File (Pickled 10),
        ''models/sales_model.pkl'' \<mapsto> File (Pickled 3),
        ''models/feature_info.json'' \<mapsto>
          File (Json (JObj [(''feature_names'', JArr [JStr ''price'']),
                            (''categorical_features'', JArr [])])))"

text \<open>
  A column that \<^verbatim>\<open>astype(int)\<close> converts: it is in the frame and each of its cells
  converts (\<open>conv\<close> is Python's \<^verbatim>\<open>int()\<close> on texts).
\<close>

definition flag_column :: "(string \<Rightarrow> int option) \<Rightarrow> frame \<Rightarrow> name \<Rightarrow> bool" where
  "flag_column conv df c =
     (case and_then (get_column df c) (astype_int conv) of Inl e \<Rightarrow> False | Inr vs \<Rightarrow> True)"

text \<open>The frames that \<^verbatim>\<open>train\<close> can work with.\<close>

definition trainable :: "(string \<Rightarrow> int option) \<Rightarrow> frame \<Rightarrow> bool" where
  "trainable conv df =
     (fst (validate_data df)
      \<and> numeric_column df ''price_target'' \<and> numeric_column df ''sales_target''
      \<and> list_all (\<lambda>c. c \<in> set (columns df)) (numerical_feature_list @ categorical_feature_list)
      \<and> flag_column conv df ''is_weekend'' \<and> flag_column conv df ''is_holiday'')"

text \<open>A model directory that \<^verbatim>\<open>save_models\<close> can write its three files into.\<close>

definition writable :: "'m filesys \<Rightarrow> string \<Rightarrow> bool" where
  "writable fs d =
     ((d = [] \<or> fs d = Some Dir)
      \<and> list_all (\<lambda>f. fs (path_join d f) \<noteq> Some Dir)
           [''price_model.pkl'', ''sales_model.pkl'', ''feature_info.json''])"

text \<open>
  A table with every schema column and the two targets: twelve rows, the last with a
  missing price target. The disk holds it as training and as validation data, beside
  an empty model directory.
\<close>

definition example_table :: frame where
  "example_table =
     \<lparr>columns = numerical_feature_list @ categorical_feature_list
                 @ [''price_target'', ''sales_target''],
      rows = replicate 11 (replicate 26 (Num 1) @ [Num 5, Num 7])
             @ [replicate 26 (Num 1) @ [NaN, Num 7]]\<rparr>"

definition example_train_disk :: "rat filesys" where
  "example_train_disk =
     [''models'' \<mapsto> Dir,
      ''train.csv'' \<mapsto> File (Csv example_table),
      ''val.csv'' \<mapsto> File (Csv example_table)]"

text \<open>The object right after \<^verbatim>\<open>__init__\<close>.\<close>

definition fresh_predictor :: "string \<Rightarrow> 'm predictor" where
  "fresh_predictor d =
     \<lparr>model_dir = d, price_model = None, sales_model = None,
      feature_names = JNull, categorical_features = JNull\<rparr>"

text \<open>A frame with every schema column whose \<^verbatim>\<open>is_weekend\<close> cell is missing.\<close>

definition example_unflagged :: frame where
  "example_unflagged =
     \<lparr>columns = numerical_feature_list @ categorical_feature_list,
      rows = [replicate 7 (Num 1) @ [NaN] @ replicate 18 (Num 1)]\<rparr>"







definition example_bad_request :: args where
  "example_bad_request =
     \<lparr>arg_action = Predict, arg_train_data = ''not json'', arg_val_data = None,
      arg_model_dir = ''models''\<rparr>"




section \<open>Properties of the SchemaValidator\<close>

lemma filter_absent_empty: "(filter (\<lambda>c. c \<notin> A) xs = []) = (set xs \<subseteq> A)"
  by (induction xs) auto

text \<open>
  Claim C3. \<^verbatim>\<open>validate_data\<close> returns True exactly for the frames that have all eight
  required columns (price_target, sales_target, brand, region, category, seller, price,
  original_price) and at least ten rows: it returns False for every frame that misses
  one of the columns and for every frame with fewer than ten rows.
\<close>

theorem validate_data_correct:
  "fst (validate_data df) =
     (set [''price_target'', ''sales_target'', ''brand'', ''region'', ''category'',
           ''seller'', ''price'', ''original_price''] \<subseteq> set (columns df)
      \<and> 10 \<le> length (rows df))"
proof -
  have "(filter (\<lambda>col. col \<notin> set (columns df)) required_columns = [])
          = (set required_columns \<subseteq> set (columns df))"
    by (rule filter_absent_empty)
  then show ?thesis
    unfolding validate_data_def Let_def
    by (auto simp add: required_columns_def simp del: filter.simps)
qed

section \<open>Properties of the OutlierFilter\<close>

lemma and_then_Inr_iff:
  "(and_then r f = Inr y) = (\<exists>x. r = Inr x \<and> f x = Inr y)"
  by (cases r) auto

lemma and_then_Inr_right: "and_then r Inr = r"
  by (cases r) auto

lemma subseq_kept: "subseq (map fst (filter snd (zip xs ks))) xs"
proof (induction xs arbitrary: ks)
  case Nil
  show ?case by simp
next
  case (Cons x xs)
  show ?case
  proof (cases ks)
    case Nil
    then show ?thesis by simp
  next
    case (Cons k ks')
    with Cons.IH [of ks'] show ?thesis by (cases k) auto
  qed
qed

lemma map_kept:
  "map f (map fst (filter snd (zip xs ks))) = map fst (filter snd (zip (map f xs) ks))"
proof (induction xs arbitrary: ks)
  case Nil
  show ?case by simp
next
  case (Cons x xs)
  show ?case
  proof (cases ks)
    case Nil
    then show ?thesis by simp
  next
    case (Cons k ks')
    with Cons.IH [of ks'] show ?thesis by simp
  qed
qed

lemma select_rows_subseq: "subseq (rows (select_rows df ks)) (rows df)"
  by (simp add: select_rows_def subseq_kept)

lemma select_rows_columns: "columns (select_rows df ks) = columns df"
  by (simp add: select_rows_def)

lemma filter_column_rows:
  assumes "filter_column df c lq uq = Inr df'"
  shows "columns df' = columns df \<and> subseq (rows df') (rows df)"
  using assms
  by (auto simp add: filter_column_def and_then_Inr_iff select_rows_subseq select_rows_columns)

lemma remove_outliers_rows:
  "remove_outliers df cols lq uq = Inr df' \<Longrightarrow>
     columns df' = columns df \<and> subseq (rows df') (rows df)"
proof (induction cols arbitrary: df)
  case Nil
  then show ?case by simp
next
  case (Cons c cols)
  from Cons.prems obtain d where d: "filter_column df c lq uq = Inr d"
    and r: "remove_outliers d cols lq uq = Inr df'"
    by (auto simp add: and_then_Inr_iff)
  from Cons.IH [OF r] filter_column_rows [OF d] show ?case
    by (auto intro: subseq_order.order_trans)
qed

lemma get_column_select_rows:
  "get_column df c = Inr cs \<Longrightarrow>
     get_column (select_rows df ks) c = Inr (map fst (filter snd (zip cs ks)))"
  by (auto simp add: get_column_def select_rows_def map_kept [symmetric] split: option.splits)

lemma numeric_values_Cons:
  "numeric_values (c # cs) \<noteq> None \<Longrightarrow> numeric_values cs \<noteq> None"
  by (cases c) auto

lemma numeric_values_kept:
  "numeric_values cs \<noteq> None \<Longrightarrow> numeric_values (map fst (filter snd (zip cs ks))) \<noteq> None"
proof (induction cs arbitrary: ks)
  case Nil
  show ?case by simp
next
  case (Cons c cs)
  have tl: "numeric_values cs \<noteq> None" using Cons.prems by (rule numeric_values_Cons)
  show ?case
  proof (cases ks)
    case Nil
    then show ?thesis by simp
  next
    case (Cons k ks')
    from Cons.IH [OF tl, of ks'] Cons.prems Cons show ?thesis
      by (cases c; cases k) auto
  qed
qed

lemma numeric_column_select_rows:
  "numeric_column df c \<Longrightarrow> numeric_column (select_rows df ks) c"
  unfolding numeric_column_def
  by (cases "get_column df c") (auto simp add: get_column_select_rows numeric_values_kept)

lemma quantile_returns:
  "numeric_values cs \<noteq> None \<Longrightarrow> 0 \<le> q \<Longrightarrow> q \<le> 1 \<Longrightarrow> \<exists>b. quantile cs q = Inr b"
  by (auto simp add: quantile_def)

lemma filter_column_returns:
  assumes "numeric_column df c" "0 \<le> lq" "lq \<le> 1" "0 \<le> uq" "uq \<le> 1"
  shows "\<exists>ks. filter_column df c lq uq = Inr (select_rows df ks)"
proof -
  from assms(1) obtain cs where cs: "get_column df c = Inr cs" and n: "numeric_values cs \<noteq> None"
    by (auto simp add: numeric_column_def split: sum.splits)
  from quantile_returns [OF n assms(2,3)] obtain lo where lo: "quantile cs lq = Inr lo" ..
  from quantile_returns [OF n assms(4,5)] obtain hi where hi: "quantile cs uq = Inr hi" ..
  show ?thesis by (auto simp add: filter_column_def cs lo hi)
qed

lemma remove_outliers_returns:
  assumes "0 \<le> lq" "lq \<le> 1" "0 \<le> uq" "uq \<le> 1"
  shows "list_all (numeric_column df) cols \<Longrightarrow> \<exists>df'. remove_outliers df cols lq uq = Inr df'"
proof (induction cols arbitrary: df)
  case Nil
  show ?case by simp
next
  case (Cons c cols)
  from Cons.prems have c: "numeric_column df c" and rest: "list_all (numeric_column df) cols"
    by simp_all
  from filter_column_returns [OF c assms] obtain ks
    where ks: "filter_column df c lq uq = Inr (select_rows df ks)" ..
  from rest have "list_all (numeric_column (select_rows df ks)) cols"
    by (auto simp add: list_all_iff numeric_column_select_rows)
  from Cons.IH [OF this] ks show ?case by auto
qed

text \<open>
  Claim C2. \<^verbatim>\<open>remove_outliers\<close> with the columns price_target and sales_target filters
  in list order: the frame is filtered by the bounds of price_target, and the bounds of
  sales_target are the quantiles of the frame so filtered. There is a frame on which
  this keeps another number of rows than bounds computed for both columns on the frame
  as given (with the default levels 0.01 and 0.99).
\<close>

theorem remove_outliers_sequential:
  "remove_outliers df [''price_target'', ''sales_target''] lq uq =
     and_then (filter_column df ''price_target'' lq uq)
       (\<lambda>filtered. filter_column filtered ''sales_target'' lq uq)
   \<and> (\<exists>df0 kept kept'.
         remove_outliers df0 [''price_target'', ''sales_target''] (1 / 100) (99 / 100) = Inr kept
       \<and> remove_outliers_independent df0 [''price_target'', ''sales_target'']
           (1 / 100) (99 / 100) = Inr kept'
       \<and> length (rows kept) \<noteq> length (rows kept'))"
proof
  show "remove_outliers df [''price_target'', ''sales_target''] lq uq =
     and_then (filter_column df ''price_target'' lq uq)
       (\<lambda>filtered. filter_column filtered ''sales_target'' lq uq)"
    by (simp add: and_then_Inr_right)
next
  have a: "remove_outliers example_targets [''price_target'', ''sales_target'']
             (1 / 100) (99 / 100) = Inr (example_targets\<lparr>rows := []\<rparr>)"
    by code_simp
  have b: "remove_outliers_independent example_targets [''price_target'', ''sales_target'']
             (1 / 100) (99 / 100) = Inr (example_targets\<lparr>rows := [[Num 3, Num 6]]\<rparr>)"
    by code_simp
  have "length (rows (example_targets\<lparr>rows := []\<rparr>))
          \<noteq> length (rows (example_targets\<lparr>rows := [[Num 3, Num 6]]\<rparr>))"
    by simp
  with a b show "\<exists>df0 kept kept'.
         remove_outliers df0 [''price_target'', ''sales_target''] (1 / 100) (99 / 100) = Inr kept
       \<and> remove_outliers_independent df0 [''price_target'', ''sales_target'']
           (1 / 100) (99 / 100) = Inr kept'
       \<and> length (rows kept) \<noteq> length (rows kept')"
    by blast
qed

text \<open>
  Claim C8, as the specification states it, fails: \<^verbatim>\<open>remove_outliers\<close> raises KeyError
  when a listed column is not in the frame.
\<close>

theorem remove_outliers_missing_column:
  "remove_outliers \<lparr>columns = [''price''], rows = [[Num 1]]\<rparr> [''price_target'']
     (1 / 100) (99 / 100) = Inl (KeyError [''price_target''])"
  by code_simp

text \<open>
  Claim C8, amended. Whenever \<^verbatim>\<open>remove_outliers\<close> returns, the result has the columns
  of the input and its rows are rows of the input, in their order, none added and none
  changed; so it has at most as many rows. It returns for every frame in which each
  listed column exists and holds numbers and missing values only, when both quantile
  levels lie between 0 and 1.
\<close>

theorem remove_outliers_safe:
  "(\<forall>df'. remove_outliers df cols lq uq = Inr df' \<longrightarrow>
       columns df' = columns df \<and> subseq (rows df') (rows df) \<and>
       length (rows df') \<le> length (rows df))
   \<and> (list_all (numeric_column df) cols \<and> 0 \<le> lq \<and> lq \<le> 1 \<and> 0 \<le> uq \<and> uq \<le> 1 \<longrightarrow>
       (\<exists>df'. remove_outliers df cols lq uq = Inr df'))"
proof (intro conjI allI impI)
  fix df'
  assume r: "remove_outliers df cols lq uq = Inr df'"
  from remove_outliers_rows [OF r] show "columns df' = columns df" by simp
  from remove_outliers_rows [OF r] show s: "subseq (rows df') (rows df)" by simp
  from s show "length (rows df') \<le> length (rows df)" by (rule list_emb_length)
next
  assume "list_all (numeric_column df) cols \<and> 0 \<le> lq \<and> lq \<le> 1 \<and> 0 \<le> uq \<and> uq \<le> 1"
  then show "\<exists>df'. remove_outliers df cols lq uq = Inr df'"
    using remove_outliers_returns [of lq uq df cols] by simp
qed

theorem remove_outliers_safe_witness:
  "list_all (numeric_column example_targets) [''price_target'', ''sales_target'']
   \<and> (\<exists>df'. remove_outliers example_targets [''price_target'', ''sales_target'']
               (1 / 100) (99 / 100) = Inr df'
        \<and> subseq (rows df') (rows example_targets)
        \<and> length (rows df') \<le> length (rows example_targets))"
proof -
  have h: "list_all (numeric_column example_targets) [''price_target'', ''sales_target'']"
    by code_simp
  have q: "(0::rat) \<le> 1 / 100 \<and> (1::rat) / 100 \<le> 1 \<and> (0::rat) \<le> 99 / 100 \<and> (99::rat) / 100 \<le> 1"
    by simp
  from remove_outliers_safe [of example_targets "[''price_target'', ''sales_target'']"
         "1 / 100" "99 / 100"] h q
  show ?thesis by blast
qed

section \<open>Properties of the cleaning steps of \<^verbatim>\<open>train\<close>\<close>

lemma those_list_all:
  "those (map f xs) = Some idxs \<Longrightarrow>
     list_all Q idxs = list_all (\<lambda>c. case f c of None \<Rightarrow> True | Some i \<Rightarrow> Q i) xs"
proof (induction xs arbitrary: idxs)
  case Nil
  then show ?case by simp
next
  case (Cons x xs)
  then show ?case by (auto split: option.splits)
qed

lemma dropna_rows:
  assumes "dropna df labels = Inr d"
  shows "columns d = columns df \<and>
         rows d = filter (\<lambda>r. \<not> list_ex (\<lambda>c. case col_index c (columns df) of
                                               None \<Rightarrow> False | Some i \<Rightarrow> is_na (r ! i)) labels)
                         (rows df)"
proof -
  from assms obtain idxs where idxs: "those (map (\<lambda>c. col_index c (columns df)) labels) = Some idxs"
    and d: "d = df\<lparr>rows := filter (\<lambda>r. list_all (\<lambda>i. \<not> is_na (r ! i)) idxs) (rows df)\<rparr>"
    by (auto simp add: dropna_def split: option.splits)
  have "list_all (\<lambda>i. \<not> is_na (r ! i)) idxs
          = (\<not> list_ex (\<lambda>c. case col_index c (columns df) of
                             None \<Rightarrow> False | Some i \<Rightarrow> is_na (r ! i)) labels)" for r
  proof -
    have "list_all (\<lambda>i. \<not> is_na (r ! i)) idxs
            = list_all (\<lambda>c. case col_index c (columns df) of
                              None \<Rightarrow> True | Some i \<Rightarrow> \<not> is_na (r ! i)) labels"
      by (rule those_list_all [OF idxs])
    also have "\<dots> = (\<not> list_ex (\<lambda>c. case col_index c (columns df) of
                             None \<Rightarrow> False | Some i \<Rightarrow> is_na (r ! i)) labels)"
      by (induction labels) (auto split: option.splits)
    finally show ?thesis .
  qed
  with d show ?thesis by simp
qed

lemma clean_frames_rows:
  assumes "clean_frames train_df val_df = Inr (t, v)"
  shows "\<exists>d. remove_outliers train_df [''price_target'', ''sales_target''] (1 / 100) (99 / 100) = Inr d
           \<and> columns t = columns train_df
           \<and> rows t = filter (\<lambda>r. \<not> target_missing train_df r) (rows d)
           \<and> columns v = columns val_df
           \<and> rows v = filter (\<lambda>r. \<not> target_missing val_df r) (rows val_df)"
proof -
  from assms obtain d where
    d: "remove_outliers train_df [''price_target'', ''sales_target''] (1 / 100) (99 / 100) = Inr d"
    and t: "dropna d [''price_target'', ''sales_target''] = Inr t"
    and v: "dropna val_df [''price_target'', ''sales_target''] = Inr v"
    unfolding clean_frames_def by (auto simp add: and_then_Inr_iff)
  from remove_outliers_rows [OF d] have c: "columns d = columns train_df" by simp
  from dropna_rows [OF t] dropna_rows [OF v] c d show ?thesis
    unfolding target_missing_def by auto
qed

lemma get_column_present:
  assumes "get_column df c = Inr y"
    and "\<forall>r\<in>set (rows df). \<not> (case col_index c (columns df) of
                                   None \<Rightarrow> False | Some i \<Rightarrow> is_na (r ! i))"
  shows "list_all (\<lambda>x. \<not> is_na x) y"
  using assms by (auto simp add: get_column_def list_all_iff split: option.splits)

lemma then_log_Inr_iff:
  "(then_log m f = (Inr y, evs)) =
     (\<exists>x e1 e2. m = (Inr x, e1) \<and> f x = (Inr y, e2) \<and> evs = e1 @ e2)"
  by (cases m, case_tac a) (auto split: prod.splits)

lemma validity_step:
  "((case vb of (False, evs) \<Rightarrow> (Inl e, evs @ l) | (True, evs) \<Rightarrow> (Inr (), evs)) = (Inr x, e1))
     = (fst vb \<and> e1 = snd vb)"
  by (cases vb, case_tac a) auto

lemma training_data_steps:
  assumes "training_data L fs train_path val_path =
             (Inr ((X_train, y_price_train, y_sales_train),
                   (X_val, y_price_val, y_sales_val), names, cats), evs)"
  shows "\<exists>train_df val_df t v n c.
           read_csv fs train_path = Inr train_df
         \<and> read_csv fs val_path = Inr val_df
         \<and> fst (validate_both train_df val_df)
         \<and> clean_frames train_df val_df = Inr (t, v)
         \<and> prepare_features (py_int L) t = Inr (X_train, names, cats)
         \<and> get_column t ''price_target'' = Inr y_price_train
         \<and> get_column t ''sales_target'' = Inr y_sales_train
         \<and> prepare_features (py_int L) v = Inr (X_val, n, c)
         \<and> get_column v ''price_target'' = Inr y_price_val
         \<and> get_column v ''sales_target'' = Inr y_sales_val"
  using assms unfolding training_data_def
  by (auto simp add: then_log_Inr_iff validity_step quiet_def log_info_def
        simp del: then_log.simps split: prod.splits)

text \<open>
  In a run of \<^verbatim>\<open>train\<close> that reaches the fits, the matrices come from the cleaned
  frames: the training frame after outlier removal and after its rows with a missing
  target were dropped, the validation frame after its rows with a missing target were
  dropped and nothing else; no label handed to LightGBM is missing.
\<close>

lemma training_data_cleaned:
  assumes "training_data L fs train_path val_path =
             (Inr ((X_train, y_price_train, y_sales_train),
                   (X_val, y_price_val, y_sales_val), names, cats), evs)"
  shows "\<exists>train_df val_df d t v.
           read_csv fs train_path = Inr train_df
         \<and> read_csv fs val_path = Inr val_df
         \<and> remove_outliers train_df [''price_target'', ''sales_target''] (1 / 100) (99 / 100)
             = Inr d
         \<and> rows t = filter (\<lambda>r. \<not> target_missing train_df r) (rows d)
         \<and> rows v = filter (\<lambda>r. \<not> target_missing val_df r) (rows val_df)
         \<and> prepare_features (py_int L) t = Inr (X_train, names, cats)
         \<and> (\<exists>n c. prepare_features (py_int L) v = Inr (X_val, n, c))
         \<and> get_column t ''price_target'' = Inr y_price_train
         \<and> get_column t ''sales_target'' = Inr y_sales_train
         \<and> get_column v ''price_target'' = Inr y_price_val
         \<and> get_column v ''sales_target'' = Inr y_sales_val
         \<and> list_all (\<lambda>x. \<not> is_na x) (y_price_train @ y_sales_train @ y_price_val @ y_sales_val)"
proof -
  from training_data_steps [OF assms] obtain train_df val_df t v n c where
    rt: "read_csv fs train_path = Inr train_df" and rv: "read_csv fs val_path = Inr val_df"
    and cl: "clean_frames train_df val_df = Inr (t, v)"
    and pt: "prepare_features (py_int L) t = Inr (X_train, names, cats)"
    and pv: "prepare_features (py_int L) v = Inr (X_val, n, c)"
    and g1: "get_column t ''price_target'' = Inr y_price_train"
    and g2: "get_column t ''sales_target'' = Inr y_sales_train"
    and g3: "get_column v ''price_target'' = Inr y_price_val"
    and g4: "get_column v ''sales_target'' = Inr y_sales_val"
    by blast
  from clean_frames_rows [OF cl] obtain d where
    d: "remove_outliers train_df [''price_target'', ''sales_target''] (1 / 100) (99 / 100) = Inr d"
    and ct: "columns t = columns train_df"
    and rows_t: "rows t = filter (\<lambda>r. \<not> target_missing train_df r) (rows d)"
    and cv: "columns v = columns val_df"
    and rows_v: "rows v = filter (\<lambda>r. \<not> target_missing val_df r) (rows val_df)"
    by blast
  have pres_t: "\<forall>r\<in>set (rows t). \<not> (case col_index c' (columns t) of
                    None \<Rightarrow> False | Some i \<Rightarrow> is_na (r ! i))"
    if "c' = ''price_target'' \<or> c' = ''sales_target''" for c'
    using that rows_t ct by (auto simp add: target_missing_def)
  have pres_v: "\<forall>r\<in>set (rows v). \<not> (case col_index c' (columns v) of
                    None \<Rightarrow> False | Some i \<Rightarrow> is_na (r ! i))"
    if "c' = ''price_target'' \<or> c' = ''sales_target''" for c'
    using that rows_v cv by (auto simp add: target_missing_def)
  have n1: "list_all (\<lambda>x. \<not> is_na x) y_price_train"
    by (rule get_column_present [OF g1 pres_t]) simp
  have n2: "list_all (\<lambda>x. \<not> is_na x) y_sales_train"
    by (rule get_column_present [OF g2 pres_t]) simp
  have n3: "list_all (\<lambda>x. \<not> is_na x) y_price_val"
    by (rule get_column_present [OF g3 pres_v]) simp
  have n4: "list_all (\<lambda>x. \<not> is_na x) y_sales_val"
    by (rule get_column_present [OF g4 pres_v]) simp
  have n: "list_all (\<lambda>x. \<not> is_na x) (y_price_train @ y_sales_train @ y_price_val @ y_sales_val)"
    using n1 n2 n3 n4 by simp
  have pv': "\<exists>n c. prepare_features (py_int L) v = Inr (X_val, n, c)"
    using pv by blast
  show ?thesis
    apply (rule exI [of _ train_df], rule exI [of _ val_df], rule exI [of _ d])
    apply (rule exI [of _ t], rule exI [of _ v])
    apply (intro conjI)
    apply (rule rt, rule rv, rule d, rule rows_t, rule rows_v, rule pt, rule pv')
    apply (rule g1, rule g2, rule g3, rule g4, rule n)
    done
qed

text \<open>
  Claim C9. The cleaning steps of \<^verbatim>\<open>train\<close> (lines 122 to 127, between validation and
  feature construction) drop every row whose price_target or sales_target is missing
  from both frames: the training frame becomes the outlier-filtered training frame
  without such rows, the validation frame becomes the validation frame without such
  rows and loses no other row, as no outlier filter is applied to it.
\<close>

theorem clean_frames_drop_missing_targets:
  assumes "clean_frames train_df val_df = Inr (t, v)"
  shows "(\<exists>d. remove_outliers train_df [''price_target'', ''sales_target''] (1 / 100) (99 / 100)
                = Inr d
              \<and> rows t = filter (\<lambda>r. \<not> target_missing train_df r) (rows d))
         \<and> rows v = filter (\<lambda>r. \<not> target_missing val_df r) (rows val_df)
         \<and> list_all (\<lambda>r. \<not> target_missing train_df r) (rows t)
         \<and> list_all (\<lambda>r. \<not> target_missing val_df r) (rows v)
         \<and> columns t = columns train_df \<and> columns v = columns val_df"
proof -
  from clean_frames_rows [OF assms] obtain d where
    d: "remove_outliers train_df [''price_target'', ''sales_target''] (1 / 100) (99 / 100) = Inr d"
    and ct: "columns t = columns train_df"
    and rows_t: "rows t = filter (\<lambda>r. \<not> target_missing train_df r) (rows d)"
    and cv: "columns v = columns val_df"
    and rows_v: "rows v = filter (\<lambda>r. \<not> target_missing val_df r) (rows val_df)"
    by blast
  have "list_all (\<lambda>r. \<not> target_missing train_df r) (rows t)"
    by (simp add: rows_t list_all_iff)
  moreover have "list_all (\<lambda>r. \<not> target_missing val_df r) (rows v)"
    by (simp add: rows_v list_all_iff)
  ultimately show ?thesis using d ct rows_t cv rows_v by blast
qed

theorem clean_frames_drop_missing_targets_witness:
  "clean_frames example_gap example_gap =
     Inr (example_gap\<lparr>rows := [[Num 2, Num 5], [Num 2, Num 5], [Num 2, Num 5], [Num 2, Num 5]]\<rparr>,
          example_gap\<lparr>rows := [[Num 1, Num 10], [Num 2, Num 5], [Num 2, Num 5],
                                [Num 2, Num 5], [Num 2, Num 5], [Num 4, Num 7]]\<rparr>)
   \<and> rows (example_gap\<lparr>rows := [[Num 1, Num 10], [Num 2, Num 5], [Num 2, Num 5],
                                [Num 2, Num 5], [Num 2, Num 5], [Num 4, Num 7]]\<rparr>)
       = filter (\<lambda>r. \<not> target_missing example_gap r) (rows example_gap)"
proof -
  have h: "clean_frames example_gap example_gap =
     Inr (example_gap\<lparr>rows := [[Num 2, Num 5], [Num 2, Num 5], [Num 2, Num 5], [Num 2, Num 5]]\<rparr>,
          example_gap\<lparr>rows := [[Num 1, Num 10], [Num 2, Num 5], [Num 2, Num 5],
                                [Num 2, Num 5], [Num 2, Num 5], [Num 4, Num 7]]\<rparr>)"
    by code_simp
  from clean_frames_drop_missing_targets [OF h] h show ?thesis by blast
qed

section \<open>Properties of the ModelStore\<close>

lemma pickle_read_iff:
  "(\<exists>m. and_then (read_file fs p) pickle_load = Inr m) = pickled_at fs p"
  unfolding pickled_at_def read_file_def
  by (cases "fs p"; simp; case_tac a; simp; case_tac x2; simp)

lemma json_get_iff:
  "(\<exists>v. json_get j k = Inr v) = (case j of JObj kvs \<Rightarrow> map_of kvs k \<noteq> None | _ \<Rightarrow> False)"
  by (cases j) (auto split: option.splits)

text \<open>
  Claim C6. \<^verbatim>\<open>load_models\<close> propagates no exception: whatever the \<^verbatim>\<open>try\<close> block
  raises (a file that is absent or a directory, a file that \<^verbatim>\<open>pickle.load\<close> or
  \<^verbatim>\<open>json.load\<close> rejects, a schema document without one of the two keys) is caught,
  printed, and the result is False. The result is True exactly when the two model files
  are read by \<^verbatim>\<open>pickle.load\<close> and \<^verbatim>\<open>feature_info.json\<close> is read as an object holding
  both keys.
\<close>

theorem load_models_never_raises:
  "(case load_models_try self fs of
      (None, self') \<Rightarrow> load_models self fs = (True, self', [])
    | (Some e, self') \<Rightarrow> load_models self fs = (False, self', [PrintText (ErrorLoadingModels e)]))
   \<and> fst (load_models self fs) =
       (pickled_at fs (path_join (model_dir self) ''price_model.pkl'')
        \<and> pickled_at fs (path_join (model_dir self) ''sales_model.pkl'')
        \<and> schema_at fs (path_join (model_dir self) ''feature_info.json''))"
proof
  show "case load_models_try self fs of
      (None, self') \<Rightarrow> load_models self fs = (True, self', [])
    | (Some e, self') \<Rightarrow> load_models self fs = (False, self', [PrintText (ErrorLoadingModels e)])"
    by (simp add: load_models_def split: prod.splits option.splits)
next
  let ?p1 = "path_join (model_dir self) ''price_model.pkl''"
  let ?p2 = "path_join (model_dir self) ''sales_model.pkl''"
  let ?p3 = "path_join (model_dir self) ''feature_info.json''"
  have ok: "fst (load_models self fs) = (fst (load_models_try self fs) = None)"
    by (simp add: load_models_def split: prod.splits option.splits)
  have "(fst (load_models_try self fs) = None) =
          ((\<exists>m. and_then (read_file fs ?p1) pickle_load = Inr m)
           \<and> (\<exists>m. and_then (read_file fs ?p2) pickle_load = Inr m)
           \<and> (\<exists>j a b. and_then (read_file fs ?p3) json_load = Inr j
                 \<and> json_get j ''feature_names'' = Inr a
                 \<and> json_get j ''categorical_features'' = Inr b))"
    unfolding load_models_try_def Let_def
    by (auto split: sum.splits)
  also have "(\<exists>j a b. and_then (read_file fs ?p3) json_load = Inr j
                 \<and> json_get j ''feature_names'' = Inr a
                 \<and> json_get j ''categorical_features'' = Inr b) = schema_at fs ?p3"
    unfolding schema_at_def read_file_def
    apply (cases "fs ?p3"; simp)
    apply (case_tac a; simp)
    apply (case_tac x2; simp)
    apply (case_tac x3; simp)
    apply (auto split: option.splits)
    done
  finally show "fst (load_models self fs) =
       (pickled_at fs ?p1 \<and> pickled_at fs ?p2 \<and> schema_at fs ?p3)"
    using ok by (simp add: pickle_read_iff)
qed

lemma path_join_inject: "path_join d a = path_join d b \<Longrightarrow> a = b"
  by (auto simp add: path_join_def split: if_splits)




lemma dir_not_path_join: "f \<noteq> [] \<Longrightarrow> d \<noteq> path_join d f"
  by (auto simp add: path_join_def)


lemma write_file_result:
  assumes "write_file fs d f c = Inr fs'"
  shows "fs' = fs(path_join d f \<mapsto> File c) \<and> (d \<noteq> [] \<longrightarrow> fs d = Some Dir)"
  using assms by (auto simp add: write_file_def Let_def split: if_splits)


lemma save_models_result:
  assumes "price_model self = Some pm" "sales_model self = Some sm"
    and "feature_names self \<noteq> JNull" "categorical_features self \<noteq> JNull"
    and "save_models self fs = (None, fs')"
  shows "fs' = fs(path_join (model_dir self) ''price_model.pkl'' \<mapsto> File (Pickled pm),
                  path_join (model_dir self) ''sales_model.pkl'' \<mapsto> File (Pickled sm),
                  path_join (model_dir self) ''feature_info.json'' \<mapsto>
                    File (Json (JObj [(''feature_names'', feature_names self),
                                      (''categorical_features'', categorical_features self)])))
         \<and> (model_dir self \<noteq> [] \<longrightarrow> fs (model_dir self) = Some Dir)"
  using assms
  by (auto simp add: save_models_def dest!: write_file_result split: sum.splits)


lemma load_after_save:
  assumes "price_model self = Some pm" "sales_model self = Some sm"
    and "feature_names self \<noteq> JNull" "categorical_features self \<noteq> JNull"
    and "save_models self fs = (None, fs')"
    and "model_dir other = model_dir self"
  shows "load_models other fs' =
           (True, other\<lparr>price_model := Some pm, sales_model := Some sm,
                        feature_names := feature_names self,
                        categorical_features := categorical_features self\<rparr>, [])"
proof -
  let ?d = "model_dir self"
  have ne: "path_join ?d ''price_model.pkl'' \<noteq> path_join ?d ''sales_model.pkl''"
           "path_join ?d ''price_model.pkl'' \<noteq> path_join ?d ''feature_info.json''"
           "path_join ?d ''sales_model.pkl'' \<noteq> path_join ?d ''feature_info.json''"
    by (auto dest: path_join_inject)
  from save_models_result [OF assms(1-5)] have
    fs': "fs' = fs(path_join ?d ''price_model.pkl'' \<mapsto> File (Pickled pm),
                  path_join ?d ''sales_model.pkl'' \<mapsto> File (Pickled sm),
                  path_join ?d ''feature_info.json'' \<mapsto>
                    File (Json (JObj [(''feature_names'', feature_names self),
                                      (''categorical_features'', categorical_features self)])))"
    by simp
  show ?thesis
    using ne
    by (simp add: load_models_def load_models_try_def read_file_def fs' assms(6))
qed


lemma reload_after_save:
  assumes "price_model self = Some pm" "sales_model self = Some sm"
    and "feature_names self \<noteq> JNull" "categorical_features self \<noteq> JNull"
    and "save_models self fs = (None, fs')"
    and "new_predictor (model_dir self) fs' = Inr (fresh, fs'')"
  shows "fs'' = fs'
       \<and> load_models fresh fs'' = (True, self, [])
       \<and> (\<forall>L data.
             predict L fresh fs'' data = (predict_resident L self data, self, [])
           \<and> predict L self fs'' data = (predict_resident L self data, self, []))"
proof -
  let ?d = "model_dir self"
  from assms(6) obtain made where made: "makedirs fs' ?d = Inr made"
    and fresh: "fresh = \<lparr>model_dir = ?d, price_model = None, sales_model = None,
                         feature_names = JNull, categorical_features = JNull\<rparr>"
    and fs'': "fs'' = made"
    by (auto simp add: new_predictor_def and_then_Inr_iff)
  from made have d: "?d \<noteq> []" by (auto simp add: makedirs_def split: if_splits)
  from save_models_result [OF assms(1-5)] d have
    fs': "fs' = fs(path_join ?d ''price_model.pkl'' \<mapsto> File (Pickled pm),
                  path_join ?d ''sales_model.pkl'' \<mapsto> File (Pickled sm),
                  path_join ?d ''feature_info.json'' \<mapsto>
                    File (Json (JObj [(''feature_names'', feature_names self),
                                      (''categorical_features'', categorical_features self)])))"
    and dir: "fs ?d = Some Dir"
    by simp_all
  have "fs' ?d = Some Dir"
    by (simp add: fs' dir dir_not_path_join)
  with made have same: "made = fs'" by (simp add: makedirs_def d)
  have md: "model_dir fresh = model_dir self" by (simp add: fresh)
  have loaded: "load_models fresh fs' = (True, self, [])"
    using load_after_save [OF assms(1-5) md] assms(1-4) by (simp add: fresh)
  have p1: "predict L fresh fs' data = (predict_resident L self data, self, [])" for L data
    by (simp add: predict_def loaded) (simp add: fresh)
  have p2: "predict L self fs' data = (predict_resident L self data, self, [])" for L data
    by (simp add: predict_def assms(1,2))
  from same fs'' loaded p1 p2 show ?thesis by simp
qed

text \<open>
  Claim C5. Round trip: when a trained bundle (both models and both schema lists set) is
  saved and a predictor is then constructed afresh on the same directory,
  \<^verbatim>\<open>load_models\<close> returns True and the loaded object equals the saved one, schema
  lists and models alike; so for every record and every behaviour of the libraries,
  \<^verbatim>\<open>predict\<close> from the fresh object gives what \<^verbatim>\<open>predict\<close> from the object in memory
  gives. That \<^verbatim>\<open>pickle.load\<close> returns the object \<^verbatim>\<open>pickle.dump\<close> wrote is the
  assumption of the file system model above.
\<close>

theorem save_load_round_trip:
  assumes "price_model self = Some pm" "sales_model self = Some sm"
    and "feature_names self \<noteq> JNull" "categorical_features self \<noteq> JNull"
    and "save_models self fs = (None, fs')"
    and "new_predictor (model_dir self) fs' = Inr (fresh, fs'')"
  shows "fs'' = fs'
       \<and> load_models fresh fs'' = (True, self, [])
       \<and> (\<forall>L data.
             predict L fresh fs'' data = (predict_resident L self data, self, [])
           \<and> predict L self fs'' data = (predict_resident L self data, self, []))"
  using assms by (rule reload_after_save)

theorem save_load_round_trip_witness:
  "save_models example_bundle example_disk = (None, example_saved)
   \<and> load_models \<lparr>model_dir = ''models'', price_model = None, sales_model = None,
                  feature_names = JNull, categorical_features = JNull\<rparr> example_saved
       = (True, example_bundle, [])
   \<and> predict stub_lib \<lparr>model_dir = ''models'', price_model = None, sales_model = None,
                  feature_names = JNull, categorical_features = JNull\<rparr> example_saved
         (JObj [(''price'', JNum 4)])
       = predict stub_lib example_bundle example_saved (JObj [(''price'', JNum 4)])"
proof -
  have s: "save_models example_bundle example_disk = (None, example_saved)"
    by (simp add: save_models_def write_file_def path_join_def example_bundle_def
          example_disk_def example_saved_def json_names_def)
  have n: "new_predictor (model_dir example_bundle) example_saved =
             Inr (\<lparr>model_dir = ''models'', price_model = None, sales_model = None,
                   feature_names = JNull, categorical_features = JNull\<rparr>, example_saved)"
    by (simp add: new_predictor_def makedirs_def example_bundle_def example_saved_def
          example_disk_def)
  have a: "price_model example_bundle = Some 10" "sales_model example_bundle = Some 3"
    "feature_names example_bundle \<noteq> JNull" "categorical_features example_bundle \<noteq> JNull"
    by (simp_all add: example_bundle_def json_names_def)
  from save_load_round_trip [OF a s n] s show ?thesis by simp
qed

section \<open>Properties of the FeatureBuilder and of the persisted schema\<close>

lemma col_index_None_iff: "(col_index c xs = None) = (c \<notin> set xs)"
  by (induction xs) auto

lemma col_index_nth: "col_index c xs = Some i \<Longrightarrow> i < length xs \<and> xs ! i = c"
proof (induction xs arbitrary: i)
  case Nil
  then show ?case by simp
next
  case (Cons x xs)
  then show ?case by (auto split: if_splits)
qed

lemma col_index_distinct:
  assumes "col_index c xs = Some i" "col_index c' xs = Some j" "c \<noteq> c'"
  shows "i \<noteq> j"
  using col_index_nth [OF assms(1)] col_index_nth [OF assms(2)] assms(3) by auto

lemma those_map_None_iff: "(those (map f xs) = None) = (\<exists>x\<in>set xs. f x = None)"
  by (induction xs) (auto split: option.splits)

lemma those_map_length: "those (map f xs) = Some ys \<Longrightarrow> length ys = length xs"
  by (induction xs arbitrary: ys) (auto split: option.splits)

lemma select_columns_Inr:
  "select_columns df names = Inr X \<Longrightarrow>
     columns X = names \<and> length (rows X) = length (rows df)"
  by (auto simp add: select_columns_def split: option.splits)

lemma select_columns_returns:
  "set names \<subseteq> set (columns df) \<Longrightarrow> \<exists>X. select_columns df names = Inr X"
proof -
  assume a: "set names \<subseteq> set (columns df)"
  have "those (map (\<lambda>c. col_index c (columns df)) names) \<noteq> None"
    using a by (auto simp add: those_map_None_iff col_index_None_iff)
  then show ?thesis by (auto simp add: select_columns_def)
qed


lemma astype_int_length: "astype_int conv cs = Inr vs \<Longrightarrow> length vs = length cs"
  by (induction cs arbitrary: vs) (auto simp add: and_then_Inr_iff)

lemma get_column_length: "get_column df c = Inr cs \<Longrightarrow> length cs = length (rows df)"
  by (auto simp add: get_column_def split: option.splits)

lemma set_column_Inr:
  "set_column df c cs = Inr d \<Longrightarrow> columns d = columns df \<and> length (rows d) = length (rows df)"
  by (auto simp add: set_column_def split: option.splits if_splits)

lemma map_nth_update_other:
  "length cs = length rs \<Longrightarrow> i \<noteq> j \<Longrightarrow>
     map (\<lambda>r. r ! j) (map (\<lambda>(r, v). r[i := v]) (zip rs cs)) = map (\<lambda>r. r ! j) rs"
proof (induction rs arbitrary: cs)
  case Nil
  then show ?case by simp
next
  case (Cons r rs)
  then show ?case by (cases cs) auto
qed

lemma set_column_other:
  assumes "set_column df c cs = Inr d" "c' \<noteq> c"
  shows "get_column d c' = get_column df c'"
proof (cases "col_index c' (columns df)")
  case None
  with assms show ?thesis
    by (auto simp add: set_column_def get_column_def split: option.splits if_splits)
next
  case (Some j)
  from assms(1) obtain i where i: "col_index c (columns df) = Some i"
    and len: "length cs = length (rows df)"
    and d: "d = df\<lparr>rows := map (\<lambda>(r, v). r[i := v]) (zip (rows df) cs)\<rparr>"
    by (auto simp add: set_column_def split: option.splits if_splits)
  from col_index_distinct [OF i Some] assms(2) have "i \<noteq> j" by auto
  with len show ?thesis
    by (simp add: get_column_def d Some map_nth_update_other del: map_map)
qed

lemma coerce_int_Inr:
  "coerce_int conv df c = Inr d \<Longrightarrow>
     columns d = columns df \<and> length (rows d) = length (rows df)
     \<and> (\<forall>c'. c' \<noteq> c \<longrightarrow> get_column d c' = get_column df c')"
  by (auto simp add: coerce_int_def and_then_Inr_iff dest: set_column_Inr set_column_other)

lemma coerce_int_returns:
  assumes "flag_column conv df c"
  shows "\<exists>d. coerce_int conv df c = Inr d"
proof -
  from assms obtain cs vs where cs: "get_column df c = Inr cs" and vs: "astype_int conv cs = Inr vs"
    by (auto simp add: flag_column_def split: sum.splits) (metis and_then.elims sum.distinct(1))
  from cs have "col_index c (columns df) \<noteq> None"
    by (auto simp add: get_column_def split: option.splits)
  moreover have "length vs = length (rows df)"
    using astype_int_length [OF vs] get_column_length [OF cs] by simp
  ultimately show ?thesis
    by (auto simp add: coerce_int_def cs vs set_column_def)
qed

lemma categorize_Inr:
  "columns (categorize c d) = columns d \<and> length (rows (categorize c d)) = length (rows d)"
  by (auto simp add: categorize_def and_then_Inr_iff split: sum.splits dest: set_column_Inr)

lemma fold_categorize:
  "columns (fold categorize cs d) = columns d
   \<and> length (rows (fold categorize cs d)) = length (rows d)"
  by (induction cs arbitrary: d) (simp_all add: categorize_Inr)

lemma prepare_features_Inr:
  assumes "prepare_features conv df = Inr (X, names, cats)"
  shows "columns X = numerical_feature_list @ categorical_feature_list
       \<and> names = numerical_feature_list @ categorical_feature_list
       \<and> cats = categorical_feature_list
       \<and> length (rows X) = length (rows df)"
  using assms unfolding prepare_features_def Let_def
  by (auto simp add: and_then_Inr_iff fold_categorize
        dest!: select_columns_Inr coerce_int_Inr)

lemma prepare_features_returns:
  assumes "set (numerical_feature_list @ categorical_feature_list) \<subseteq> set (columns df)"
    and "flag_column conv df ''is_weekend''" and "flag_column conv df ''is_holiday''"
  shows "\<exists>X. prepare_features conv df =
           Inr (X, numerical_feature_list @ categorical_feature_list, categorical_feature_list)"
proof -
  from coerce_int_returns [OF assms(2)] obtain df1
    where df1: "coerce_int conv df ''is_weekend'' = Inr df1" ..
  from coerce_int_Inr [OF df1] have c1: "columns df1 = columns df"
    and same: "get_column df1 ''is_holiday'' = get_column df ''is_holiday''"
    by simp_all
  from assms(3) same have "flag_column conv df1 ''is_holiday''"
    by (simp add: flag_column_def)
  from coerce_int_returns [OF this] obtain df2
    where df2: "coerce_int conv df1 ''is_holiday'' = Inr df2" ..
  from coerce_int_Inr [OF df2] c1 have c2: "columns df2 = columns df" by simp
  have "set (numerical_feature_list @ categorical_feature_list)
          \<subseteq> set (columns (fold categorize categorical_feature_list df2))"
    using assms(1) by (simp add: fold_categorize c2)
  from select_columns_returns [OF this] obtain X where
    "select_columns (fold categorize categorical_feature_list df2)
       (numerical_feature_list @ categorical_feature_list) = Inr X" ..
  then show ?thesis
    by (simp add: prepare_features_def df1 df2)
qed

lemma int_cells_iff:
  "(\<exists>vs. astype_int conv cs = Inr vs) = (\<forall>c\<in>set cs. \<exists>v. int_cell conv c = Inr v)"
  by (induction cs) (auto simp add: and_then_Inr_iff)

lemma get_column_Inr_iff: "(\<exists>cs. get_column df c = Inr cs) = (c \<in> set (columns df))"
proof (cases "col_index c (columns df)")
  case None
  then show ?thesis using col_index_None_iff [of c "columns df"] by (simp add: get_column_def)
next
  case (Some i)
  then show ?thesis using col_index_None_iff [of c "columns df"] by (simp add: get_column_def)
qed

lemma flag_column_iff:
  "flag_column conv df c =
     (\<exists>i. col_index c (columns df) = Some i
          \<and> (\<forall>r\<in>set (rows df). \<exists>v. int_cell conv (r ! i) = Inr v))"
proof (cases "col_index c (columns df)")
  case None
  then show ?thesis by (simp add: flag_column_def get_column_def)
next
  case (Some i)
  have "flag_column conv df c = (\<exists>vs. astype_int conv (map (\<lambda>r. r ! i) (rows df)) = Inr vs)"
    by (auto simp add: flag_column_def get_column_def Some split: sum.splits)
  then show ?thesis by (simp add: int_cells_iff Some)
qed

lemma flag_column_rows:
  assumes "flag_column conv df c" "columns t = columns df" "set (rows t) \<subseteq> set (rows df)"
  shows "flag_column conv t c"
  using assms by (auto simp add: flag_column_iff)

lemma dropna_returns:
  "set labels \<subseteq> set (columns df) \<Longrightarrow> \<exists>d. dropna df labels = Inr d"
proof -
  assume a: "set labels \<subseteq> set (columns df)"
  have "those (map (\<lambda>c. col_index c (columns df)) labels) \<noteq> None"
    using a by (auto simp add: those_map_None_iff col_index_None_iff)
  then show ?thesis by (auto simp add: dropna_def)
qed

lemma numeric_column_present: "numeric_column df c \<Longrightarrow> c \<in> set (columns df)"
  by (auto simp add: numeric_column_def get_column_Inr_iff [symmetric] split: sum.splits)

lemma clean_frames_returns:
  assumes "numeric_column train_df ''price_target''" "numeric_column train_df ''sales_target''"
    and "''price_target'' \<in> set (columns val_df)" "''sales_target'' \<in> set (columns val_df)"
  shows "\<exists>t v. clean_frames train_df val_df = Inr (t, v)"
proof -
  have "list_all (numeric_column train_df) [''price_target'', ''sales_target'']"
    using assms(1,2) by simp
  from remove_outliers_returns [OF _ _ _ _ this, of "1 / 100" "99 / 100"] obtain d
    where d: "remove_outliers train_df [''price_target'', ''sales_target''] (1 / 100) (99 / 100)
                = Inr d"
    by auto
  from remove_outliers_rows [OF d] have "columns d = columns train_df" by simp
  with assms(1,2) have "set [''price_target'', ''sales_target''] \<subseteq> set (columns d)"
    by (auto dest: numeric_column_present)
  from dropna_returns [OF this] obtain t
    where t: "dropna d [''price_target'', ''sales_target''] = Inr t" ..
  have "set [''price_target'', ''sales_target''] \<subseteq> set (columns val_df)"
    using assms(3,4) by simp
  from dropna_returns [OF this] obtain v
    where v: "dropna val_df [''price_target'', ''sales_target''] = Inr v" ..
  have "clean_frames train_df val_df = Inr (t, v)"
    by (simp only: clean_frames_def d t v and_then.simps)
  then show ?thesis by blast
qed

lemma clean_frames_subset:
  assumes "clean_frames train_df val_df = Inr (t, v)"
  shows "columns t = columns train_df \<and> set (rows t) \<subseteq> set (rows train_df)
       \<and> columns v = columns val_df \<and> set (rows v) \<subseteq> set (rows val_df)"
proof -
  from clean_frames_rows [OF assms] obtain d where
    d: "remove_outliers train_df [''price_target'', ''sales_target''] (1 / 100) (99 / 100) = Inr d"
    and ct: "columns t = columns train_df"
    and rows_t: "rows t = filter (\<lambda>r. \<not> target_missing train_df r) (rows d)"
    and cv: "columns v = columns val_df"
    and rows_v: "rows v = filter (\<lambda>r. \<not> target_missing val_df r) (rows val_df)"
    by blast
  from remove_outliers_rows [OF d] have "set (rows d) \<subseteq> set (rows train_df)"
    by (auto dest: list_emb_set)
  with ct cv rows_t rows_v show ?thesis by auto
qed

lemma fst_then_log: "fst (then_log m f) = and_then (fst m) (\<lambda>x. fst (f x))"
  by (cases m, case_tac a) (auto split: prod.splits)

lemma validate_data_True: "fst (validate_data df) \<Longrightarrow> validate_data df = (True, [])"
  by (auto simp add: validate_data_def Let_def split: if_splits)

lemma training_data_returns:
  assumes "read_csv fs train_path = Inr train_df" "read_csv fs val_path = Inr val_df"
    and "trainable (py_int L) train_df" "trainable (py_int L) val_df"
  shows "\<exists>r. fst (training_data L fs train_path val_path) = Inr r"
proof -
  from assms(3,4) have vt: "validate_data train_df = (True, [])"
    and vv: "validate_data val_df = (True, [])"
    by (auto simp add: trainable_def dest: validate_data_True)
  have both: "validate_both train_df val_df = (True, [])"
    by (simp add: validate_both_def vt vv)
  from assms(3,4) have "\<exists>t v. clean_frames train_df val_df = Inr (t, v)"
    by (intro clean_frames_returns) (auto simp add: trainable_def dest: numeric_column_present)
  then obtain t v where cl: "clean_frames train_df val_df = Inr (t, v)" by blast
  note sub = clean_frames_subset [OF cl]
  have "\<exists>X. prepare_features (py_int L) t =
           Inr (X, numerical_feature_list @ categorical_feature_list, categorical_feature_list)"
    using assms(3) sub
    by (intro prepare_features_returns)
       (auto simp add: trainable_def list_all_iff intro: flag_column_rows)
  then obtain Xt where pt: "prepare_features (py_int L) t =
           Inr (Xt, numerical_feature_list @ categorical_feature_list, categorical_feature_list)" ..
  have "\<exists>X. prepare_features (py_int L) v =
           Inr (X, numerical_feature_list @ categorical_feature_list, categorical_feature_list)"
    using assms(4) sub
    by (intro prepare_features_returns)
       (auto simp add: trainable_def list_all_iff intro: flag_column_rows)
  then obtain Xv where pv: "prepare_features (py_int L) v =
           Inr (Xv, numerical_feature_list @ categorical_feature_list, categorical_feature_list)" ..
  have "''price_target'' \<in> set (columns t)" "''sales_target'' \<in> set (columns t)"
       "''price_target'' \<in> set (columns v)" "''sales_target'' \<in> set (columns v)"
    using assms(3,4) sub by (auto simp add: trainable_def dest: numeric_column_present)
  then obtain y1 y2 y3 y4 where
    g: "get_column t ''price_target'' = Inr y1" "get_column t ''sales_target'' = Inr y2"
       "get_column v ''price_target'' = Inr y3" "get_column v ''sales_target'' = Inr y4"
    by (auto simp add: get_column_Inr_iff [symmetric])
  show ?thesis
    by (simp add: training_data_def fst_then_log quiet_def log_info_def
          assms(1,2) both cl pt pv g)
qed

lemma write_file_returns:
  "d = [] \<or> fs d = Some Dir \<Longrightarrow> fs (path_join d f) \<noteq> Some Dir \<Longrightarrow>
     write_file fs d f c = Inr (fs(path_join d f \<mapsto> File c))"
  by (auto simp add: write_file_def Let_def)

lemma save_models_returns:
  assumes "writable fs (model_dir self)"
  shows "\<exists>fs'. save_models self fs = (None, fs')"
proof -
  let ?d = "model_dir self"
  have ne: "path_join ?d ''price_model.pkl'' \<noteq> path_join ?d ''sales_model.pkl''"
           "path_join ?d ''price_model.pkl'' \<noteq> path_join ?d ''feature_info.json''"
           "path_join ?d ''sales_model.pkl'' \<noteq> path_join ?d ''feature_info.json''"
    by (auto dest: path_join_inject)
  have nd: "?d \<noteq> path_join ?d ''price_model.pkl''" "?d \<noteq> path_join ?d ''sales_model.pkl''"
    by (simp_all add: dir_not_path_join)
  from assms have w: "?d = [] \<or> fs ?d = Some Dir"
    "fs (path_join ?d ''price_model.pkl'') \<noteq> Some Dir"
    "fs (path_join ?d ''sales_model.pkl'') \<noteq> Some Dir"
    "fs (path_join ?d ''feature_info.json'') \<noteq> Some Dir"
    by (simp_all add: writable_def)
  show ?thesis
    using w ne nd
    by (cases "price_model self"; cases "sales_model self")
       (auto simp add: save_models_def write_file_def Let_def)
qed

lemma write_file_keeps_dirs:
  "write_file fs d f c = Inr fs' \<Longrightarrow> fs q = Some Dir \<Longrightarrow> fs' q = Some Dir"
  by (auto simp add: write_file_def Let_def split: if_splits)

lemma save_models_keeps_dirs:
  assumes "fs q = Some Dir"
  shows "snd (save_models self fs) q = Some Dir"
  using assms
  by (auto simp add: save_models_def split: option.splits sum.splits
        dest: write_file_keeps_dirs)

lemma fit_models_returns:
  assumes "\<And>X y Xv yv cats. \<exists>m. lgb_train L X y Xv yv cats = Inr m"
  shows "\<exists>pm sm. fit_models L tr va cats = (Inr (pm, sm), [Log FittingPrice, Log FittingSales])"
proof -
  obtain X y1 y2 where tr: "tr = (X, y1, y2)" by (cases tr) auto
  obtain Xv v1 v2 where va: "va = (Xv, v1, v2)" by (cases va) auto
  from assms obtain pm where pm: "lgb_train L X y1 Xv v1 cats = Inr pm" by blast
  from assms obtain sm where sm: "lgb_train L X y2 Xv v2 cats = Inr sm" by blast
  show ?thesis
    by (simp add: fit_models_def tr va pm sm log_info_def quiet_def)
qed

lemma train_Inr:
  assumes "train L self fs train_path val_path = (Inr (metrics, self'), fs', evs)"
  shows "\<exists>pm sm.
           self' = self\<lparr>feature_names :=
                          json_names (numerical_feature_list @ categorical_feature_list),
                        categorical_features := json_names categorical_feature_list,
                        price_model := Some pm, sales_model := Some sm\<rparr>
         \<and> save_models self' fs = (None, fs')
         \<and> metrics = metrics_of L pm sm"
proof -
  from assms obtain tr va names cats evs0 where
    td: "training_data L fs train_path val_path = (Inr (tr, va, names, cats), evs0)"
    by (auto simp add: train_def split: prod.splits sum.splits)
  obtain X y1 y2 where tr: "tr = (X, y1, y2)" by (cases tr) auto
  obtain Xv v1 v2 where va: "va = (Xv, v1, v2)" by (cases va) auto
  from training_data_steps [OF td [unfolded tr va]] obtain t where
    "prepare_features (py_int L) t = Inr (X, names, cats)" by blast
  from prepare_features_Inr [OF this] have
    n: "names = numerical_feature_list @ categorical_feature_list"
    and c: "cats = categorical_feature_list" by simp_all
  from assms td n c show ?thesis
    by (auto simp add: train_def Let_def split: prod.splits sum.splits option.splits)
qed

lemma train_returns:
  assumes "read_csv fs train_path = Inr train_df" "read_csv fs val_path = Inr val_df"
    and "trainable (py_int L) train_df" "trainable (py_int L) val_df"
    and "\<And>X y Xv yv cats. \<exists>m. lgb_train L X y Xv yv cats = Inr m"
    and "writable fs (model_dir self)"
  shows "\<exists>metrics self' fs' evs.
           train L self fs train_path val_path = (Inr (metrics, self'), fs', evs)"
proof -
  from training_data_returns [OF assms(1-4)] obtain r evs0 where
    td: "training_data L fs train_path val_path = (Inr r, evs0)"
    by (cases "training_data L fs train_path val_path") auto
  obtain tr va names cats where r: "r = (tr, va, names, cats)" by (cases r) auto
  from fit_models_returns [OF assms(5)] obtain pm sm where
    fm: "fit_models L tr va cats = (Inr (pm, sm), [Log FittingPrice, Log FittingSales])"
    by blast
  let ?self2 = "self\<lparr>feature_names := json_names names,
                     categorical_features := json_names cats,
                     price_model := Some pm, sales_model := Some sm\<rparr>"
  have "writable fs (model_dir ?self2)" using assms(6) by simp
  from save_models_returns [OF this] obtain fs' where
    sv: "save_models ?self2 fs = (None, fs')" ..
  show ?thesis
    by (simp add: train_def td r fm sv Let_def)
qed

lemma names_of_json_names: "names_of (json_names xs) = Some xs"
  by (induction xs) (simp_all add: json_names_def)

lemma predict_resident_regular:
  assumes "price_model s = Some pm" "sales_model s = Some sm"
    and "names_of (categorical_features s) = Some cats"
    and "names_of (feature_names s) = Some names"
    and "predict_resident L s data = Inr p"
  shows "\<exists>X. columns X = names \<and> length (rows X) = 1
            \<and> booster_predict L pm X = Inr (fst p) \<and> booster_predict L sm X = Inr (snd p)"
proof -
  have one: "length (rows (frame_of_record data)) = 1"
    by (cases data) simp_all
  from assms(5) show ?thesis
    unfolding predict_resident_def Let_def
    using one
    by (auto simp add: assms(1-4) and_then_Inr_iff fold_categorize
          dest!: select_columns_Inr coerce_int_Inr split: if_splits)
qed

lemma ex_trainable: "trainable (\<lambda>t. None) example_table"
  unfolding trainable_def
  apply (intro conjI)
  apply code_simp
  apply code_simp
  apply code_simp
  apply code_simp
  apply code_simp
  apply code_simp
  done


lemma new_predictor_returns:
  "d \<noteq> [] \<Longrightarrow> fs d = None \<or> fs d = Some Dir \<Longrightarrow>
     \<exists>fs'. new_predictor d fs = Inr (fresh_predictor d, fs')"
  by (auto simp add: new_predictor_def makedirs_def fresh_predictor_def)

lemma schema_lists:
  "numerical_feature_list @ categorical_feature_list =
     [''price'', ''original_price'', ''discount_percentage'', ''stock_level'',
      ''customer_rating'', ''review_count'', ''delivery_days'', ''is_weekend'', ''is_holiday'',
      ''sales_quantity_lag_1'', ''price_lag_1'', ''sales_quantity_lag_3'', ''price_lag_3'',
      ''sales_quantity_lag_7'', ''price_lag_7'', ''sales_quantity_rolling_mean_3'',
      ''price_rolling_mean_3'', ''sales_quantity_rolling_mean_7'', ''price_rolling_mean_7'',
      ''brand'', ''region'', ''category'', ''seller'', ''day_of_week'', ''month'', ''quarter'']"
  by (simp add: numerical_feature_list_def categorical_feature_list_def)

lemma train_then_load:
  assumes "train L self fs train_path val_path = (Inr (metrics, self'), fs', evs)"
    and "new_predictor (model_dir self) fs' = Inr (fresh, fs'')"
  shows "feature_names self' = json_names (numerical_feature_list @ categorical_feature_list)
       \<and> categorical_features self' = json_names categorical_feature_list
       \<and> load_models fresh fs'' = (True, self', [])
       \<and> (\<forall>data p. predict_resident L self' data = Inr p \<longrightarrow>
             (\<exists>X. columns X = numerical_feature_list @ categorical_feature_list
                 \<and> length (rows X) = 1
                 \<and> (\<exists>pm sm. price_model self' = Some pm \<and> sales_model self' = Some sm
                       \<and> booster_predict L pm X = Inr (fst p)
                       \<and> booster_predict L sm X = Inr (snd p))))"
proof -
  from train_Inr [OF assms(1)] obtain pm sm where
    self': "self' = self\<lparr>feature_names :=
                          json_names (numerical_feature_list @ categorical_feature_list),
                        categorical_features := json_names categorical_feature_list,
                        price_model := Some pm, sales_model := Some sm\<rparr>"
    and sv: "save_models self' fs = (None, fs')"
    by blast
  have f: "price_model self' = Some pm" "sales_model self' = Some sm"
    "feature_names self' \<noteq> JNull" "categorical_features self' \<noteq> JNull"
    by (simp_all add: self' json_names_def)
  have md: "model_dir self' = model_dir self" by (simp add: self')
  from reload_after_save [OF f sv assms(2) [folded md]]
  have ld: "load_models fresh fs'' = (True, self', [])" by blast
  have n: "names_of (feature_names self') =
             Some (numerical_feature_list @ categorical_feature_list)"
    "names_of (categorical_features self') = Some categorical_feature_list"
    by (simp_all add: self' names_of_json_names)
  have "\<exists>X. columns X = numerical_feature_list @ categorical_feature_list
                 \<and> length (rows X) = 1
                 \<and> (\<exists>pm sm. price_model self' = Some pm \<and> sales_model self' = Some sm
                       \<and> booster_predict L pm X = Inr (fst p)
                       \<and> booster_predict L sm X = Inr (snd p))"
    if "predict_resident L self' data = Inr p" for data p
    using predict_resident_regular [OF f(1,2) n(2) n(1) that] f(1,2) by blast
  with ld self' show ?thesis by simp
qed

text \<open>
  Claim C1, as the specification states it, fails: a frame that has every schema column
  makes \<^verbatim>\<open>_prepare_features\<close> raise when a cell of \<^verbatim>\<open>is_weekend\<close> is missing, as
  \<^verbatim>\<open>astype(int)\<close> (line 55) rejects NaN.
\<close>

theorem prepare_features_missing_flag:
  "list_all (\<lambda>c. c \<in> set (columns example_unflagged))
     (numerical_feature_list @ categorical_feature_list)
   \<and> prepare_features (\<lambda>t. None) example_unflagged
       = Inl (ValueError ''Cannot convert non-finite values (NA or inf) to integer'')"
  by code_simp

text \<open>
  Claim C1, amended. The schema is the 19 numeric names followed by the 7 categorical
  names, in the order below. Whenever \<^verbatim>\<open>_prepare_features\<close> returns, the columns of its
  matrix and its feature names are that list and its categorical names are the 7. It
  returns for every frame that has every schema column and whose \<^verbatim>\<open>is_weekend\<close> and
  \<^verbatim>\<open>is_holiday\<close> cells all convert to integers. After every training run that
  returns, a predictor constructed afresh on the same directory loads the very object
  the run left, and each prediction it returns was computed by the two models from a
  one-row matrix whose columns are that list in that order.
\<close>

theorem feature_schema_fixed:
  "numerical_feature_list @ categorical_feature_list =
     [''price'', ''original_price'', ''discount_percentage'', ''stock_level'',
      ''customer_rating'', ''review_count'', ''delivery_days'', ''is_weekend'', ''is_holiday'',
      ''sales_quantity_lag_1'', ''price_lag_1'', ''sales_quantity_lag_3'', ''price_lag_3'',
      ''sales_quantity_lag_7'', ''price_lag_7'', ''sales_quantity_rolling_mean_3'',
      ''price_rolling_mean_3'', ''sales_quantity_rolling_mean_7'', ''price_rolling_mean_7'',
      ''brand'', ''region'', ''category'', ''seller'', ''day_of_week'', ''month'', ''quarter'']
   \<and> (\<forall>X names cats. prepare_features conv df = Inr (X, names, cats) \<longrightarrow>
         columns X = numerical_feature_list @ categorical_feature_list
       \<and> names = numerical_feature_list @ categorical_feature_list
       \<and> cats = categorical_feature_list
       \<and> length (rows X) = length (rows df))
   \<and> (list_all (\<lambda>c. c \<in> set (columns df)) (numerical_feature_list @ categorical_feature_list)
        \<and> flag_column conv df ''is_weekend'' \<and> flag_column conv df ''is_holiday'' \<longrightarrow>
       (\<exists>X. prepare_features conv df =
          Inr (X, numerical_feature_list @ categorical_feature_list, categorical_feature_list)))
   \<and> (\<forall>metrics self' fs' evs fresh fs''.
         train L self fs train_path val_path = (Inr (metrics, self'), fs', evs)
       \<and> new_predictor (model_dir self) fs' = Inr (fresh, fs'') \<longrightarrow>
         feature_names self' = json_names (numerical_feature_list @ categorical_feature_list)
       \<and> categorical_features self' = json_names categorical_feature_list
       \<and> load_models fresh fs'' = (True, self', [])
       \<and> (\<forall>data p. predict_resident L self' data = Inr p \<longrightarrow>
             (\<exists>X. columns X = numerical_feature_list @ categorical_feature_list
                 \<and> length (rows X) = 1
                 \<and> (\<exists>pm sm. price_model self' = Some pm \<and> sales_model self' = Some sm
                       \<and> booster_predict L pm X = Inr (fst p)
                       \<and> booster_predict L sm X = Inr (snd p)))))"
proof (intro conjI allI impI)
  show "numerical_feature_list @ categorical_feature_list =
     [''price'', ''original_price'', ''discount_percentage'', ''stock_level'',
      ''customer_rating'', ''review_count'', ''delivery_days'', ''is_weekend'', ''is_holiday'',
      ''sales_quantity_lag_1'', ''price_lag_1'', ''sales_quantity_lag_3'', ''price_lag_3'',
      ''sales_quantity_lag_7'', ''price_lag_7'', ''sales_quantity_rolling_mean_3'',
      ''price_rolling_mean_3'', ''sales_quantity_rolling_mean_7'', ''price_rolling_mean_7'',
      ''brand'', ''region'', ''category'', ''seller'', ''day_of_week'', ''month'', ''quarter'']"
    by (rule schema_lists)
next
  fix X names cats
  assume p: "prepare_features conv df = Inr (X, names, cats)"
  from prepare_features_Inr [OF p]
  show "columns X = numerical_feature_list @ categorical_feature_list"
    and "names = numerical_feature_list @ categorical_feature_list"
    and "cats = categorical_feature_list"
    and "length (rows X) = length (rows df)"
    by simp_all
next
  assume "list_all (\<lambda>c. c \<in> set (columns df)) (numerical_feature_list @ categorical_feature_list)
        \<and> flag_column conv df ''is_weekend'' \<and> flag_column conv df ''is_holiday''"
  then show "\<exists>X. prepare_features conv df =
          Inr (X, numerical_feature_list @ categorical_feature_list, categorical_feature_list)"
    by (intro prepare_features_returns) (auto simp add: list_all_iff)
next
  fix metrics self' fs' evs fresh fs''
  assume a: "train L self fs train_path val_path = (Inr (metrics, self'), fs', evs)
       \<and> new_predictor (model_dir self) fs' = Inr (fresh, fs'')"
  then have t: "train L self fs train_path val_path = (Inr (metrics, self'), fs', evs)"
    and n: "new_predictor (model_dir self) fs' = Inr (fresh, fs'')"
    by simp_all
  note r = train_then_load [OF t n]
  from r show "feature_names self' = json_names (numerical_feature_list @ categorical_feature_list)"
    by blast
  from r show "categorical_features self' = json_names categorical_feature_list" by blast
  from r show "load_models fresh fs'' = (True, self', [])" by blast
  fix data p
  assume "predict_resident L self' data = Inr p"
  with r show "\<exists>X. columns X = numerical_feature_list @ categorical_feature_list
                 \<and> length (rows X) = 1
                 \<and> (\<exists>pm sm. price_model self' = Some pm \<and> sales_model self' = Some sm
                       \<and> booster_predict L pm X = Inr (fst p)
                       \<and> booster_predict L sm X = Inr (snd p))"
    by blast
qed

lemma stub_total: "\<exists>m. lgb_train stub_lib X y Xv yv cats = Inr m"
  by (simp add: stub_lib_def)

lemma example_train_runs:
  "\<exists>metrics self' fs' evs.
     train stub_lib (fresh_predictor ''models'') example_train_disk ''train.csv'' ''val.csv''
       = (Inr (metrics, self'), fs', evs)"
proof -
  have c: "read_csv example_train_disk ''train.csv'' = Inr example_table"
          "read_csv example_train_disk ''val.csv'' = Inr example_table"
    by (simp_all add: read_csv_def read_file_def example_train_disk_def)
  have t: "trainable (py_int stub_lib) example_table"
    using ex_trainable by (simp add: stub_lib_def)
  have w: "writable example_train_disk (model_dir (fresh_predictor ''models'' :: rat predictor))"
    by (simp add: writable_def example_train_disk_def fresh_predictor_def path_join_def)
  show ?thesis
    by (rule train_returns [OF c t t stub_total w])
qed

theorem feature_schema_fixed_witness:
  "list_all (\<lambda>c. c \<in> set (columns example_table))
     (numerical_feature_list @ categorical_feature_list)
   \<and> flag_column (\<lambda>t. None) example_table ''is_weekend''
   \<and> flag_column (\<lambda>t. None) example_table ''is_holiday''
   \<and> (\<exists>X. prepare_features (\<lambda>t. None) example_table =
          Inr (X, numerical_feature_list @ categorical_feature_list, categorical_feature_list)
        \<and> columns X = numerical_feature_list @ categorical_feature_list)
   \<and> (\<exists>metrics self' fs' evs.
         train stub_lib (fresh_predictor ''models'') example_train_disk ''train.csv'' ''val.csv''
           = (Inr (metrics, self'), fs', evs)
       \<and> new_predictor ''models'' fs' = Inr (fresh_predictor ''models'', fs')
       \<and> load_models (fresh_predictor ''models'') fs' = (True, self', [])
       \<and> feature_names self' = json_names (numerical_feature_list @ categorical_feature_list))"
proof -
  note inst = feature_schema_fixed [of "\<lambda>t. None" example_table stub_lib
      "fresh_predictor ''models''" example_train_disk "''train.csv''" "''val.csv''"]
  from ex_trainable have h:
    "list_all (\<lambda>c. c \<in> set (columns example_table))
       (numerical_feature_list @ categorical_feature_list)"
    "flag_column (\<lambda>t. None) example_table ''is_weekend''"
    "flag_column (\<lambda>t. None) example_table ''is_holiday''"
    by (simp_all add: trainable_def)
  from inst h obtain X where X: "prepare_features (\<lambda>t. None) example_table =
          Inr (X, numerical_feature_list @ categorical_feature_list, categorical_feature_list)"
    by blast
  from inst X have cX: "columns X = numerical_feature_list @ categorical_feature_list"
    by blast
  from example_train_runs obtain metrics self' fs' evs where
    tr: "train stub_lib (fresh_predictor ''models'') example_train_disk ''train.csv'' ''val.csv''
           = (Inr (metrics, self'), fs', evs)"
    by blast
  from train_Inr [OF tr] have "save_models self' example_train_disk = (None, fs')" by blast
  then have "fs' = snd (save_models self' example_train_disk)" by simp
  moreover have "example_train_disk ''models'' = Some Dir"
    by (simp add: example_train_disk_def)
  ultimately have dir: "fs' ''models'' = Some Dir"
    by (simp add: save_models_keeps_dirs)
  then have np: "new_predictor ''models'' fs' = Inr (fresh_predictor ''models'', fs')"
    by (simp add: new_predictor_def makedirs_def fresh_predictor_def)
  have md: "model_dir (fresh_predictor ''models'' :: rat predictor) = ''models''"
    by (simp add: fresh_predictor_def)
  from inst tr np md have
    "load_models (fresh_predictor ''models'') fs' = (True, self', [])
     \<and> feature_names self' = json_names (numerical_feature_list @ categorical_feature_list)"
    by simp
  with h X cX tr np show ?thesis by blast
qed

section \<open>Properties of the output streams\<close>


lemma stderr_of_append: "stderr_of (a @ b) = stderr_of a @ stderr_of b"
  by (induction a rule: stderr_of.induct) simp_all




















section \<open>Properties of \<^verbatim>\<open>main\<close>\<close>

















end
